theory Spec2Isabelle
  imports Complex_Main "HOL-Library.AList"
begin

section \<open>JavaScript numbers\<close>

text \<open>
  The numeric engine of \<^verbatim>\<open>NeuralNetworkCompute.tsx\<close> computes on JavaScript numbers.
  A finite number is modelled by the real it denotes: rounding, overflow and the sign of
  zero are not modelled. The three special values are kept, because the code produces
  them: \<^verbatim>\<open>Infinity\<close> and \<^verbatim>\<open>-Infinity\<close> fill the accumulators of \<^verbatim>\<open>findBounds\<close>, and
  reading an array beyond its end gives \<^verbatim>\<open>undefined\<close>, which every arithmetic
  operation, comparison and \<^verbatim>\<open>Math\<close> function turns into \<^verbatim>\<open>NaN\<close>.
\<close>

datatype jsnum = Num real | PInf | NInf | NaN

fun jneg :: "jsnum \<Rightarrow> jsnum" where
  "jneg (Num a) = Num (- a)"
| "jneg PInf = NInf"
| "jneg NInf = PInf"
| "jneg NaN = NaN"

fun jadd :: "jsnum \<Rightarrow> jsnum \<Rightarrow> jsnum" where
  "jadd (Num a) (Num b) = Num (a + b)"
| "jadd NaN y = NaN"
| "jadd x NaN = NaN"
| "jadd PInf NInf = NaN"
| "jadd NInf PInf = NaN"
| "jadd PInf y = PInf"
| "jadd NInf y = NInf"
| "jadd (Num a) y = y"

definition jsub :: "jsnum \<Rightarrow> jsnum \<Rightarrow> jsnum" where
  "jsub x y = jadd x (jneg y)"

text \<open>The sign of a number that is not \<^verbatim>\<open>NaN\<close>: \<open>-1\<close>, \<open>0\<close> or \<open>1\<close>.\<close>

fun sign_of :: "jsnum \<Rightarrow> real" where
  "sign_of (Num a) = sgn a"
| "sign_of PInf = 1"
| "sign_of NInf = - 1"
| "sign_of NaN = 0"

definition signed_inf :: "real \<Rightarrow> jsnum" where
  "signed_inf s = (if s = 0 then NaN else if 0 < s then PInf else NInf)"

fun jmul :: "jsnum \<Rightarrow> jsnum \<Rightarrow> jsnum" where
  "jmul (Num a) (Num b) = Num (a * b)"
| "jmul NaN y = NaN"
| "jmul x NaN = NaN"
| "jmul x y = signed_inf (sign_of x * sign_of y)"

fun jdiv :: "jsnum \<Rightarrow> jsnum \<Rightarrow> jsnum" where
  "jdiv (Num a) (Num b) = (if b = 0 then signed_inf (sgn a) else Num (a / b))"
| "jdiv NaN y = NaN"
| "jdiv x NaN = NaN"
| "jdiv (Num a) y = Num 0"
| "jdiv x (Num b) = signed_inf (sign_of x * (if b < 0 then - 1 else 1))"
| "jdiv x y = NaN"

text \<open>Comparisons: every comparison with \<^verbatim>\<open>NaN\<close> is false, also \<^verbatim>\<open>===\<close>.\<close>

fun jlt :: "jsnum \<Rightarrow> jsnum \<Rightarrow> bool" where
  "jlt (Num a) (Num b) = (a < b)"
| "jlt NaN y = False"
| "jlt x NaN = False"
| "jlt x PInf = (x \<noteq> PInf)"
| "jlt NInf y = (y \<noteq> NInf)"
| "jlt x y = False"

definition jgt :: "jsnum \<Rightarrow> jsnum \<Rightarrow> bool" where
  "jgt x y = jlt y x"

definition jeq :: "jsnum \<Rightarrow> jsnum \<Rightarrow> bool" where
  "jeq x y = (x \<noteq> NaN \<and> x = y)"

text \<open>\<^verbatim>\<open>Math.max\<close> and \<^verbatim>\<open>Math.min\<close> of two arguments.\<close>

definition jmax :: "jsnum \<Rightarrow> jsnum \<Rightarrow> jsnum" where
  "jmax x y = (if x = NaN \<or> y = NaN then NaN else if jlt x y then y else x)"

definition jmin :: "jsnum \<Rightarrow> jsnum \<Rightarrow> jsnum" where
  "jmin x y = (if x = NaN \<or> y = NaN then NaN else if jlt y x then y else x)"

fun jabs :: "jsnum \<Rightarrow> jsnum" where
  "jabs (Num a) = Num \<bar>a\<bar>"
| "jabs PInf = PInf"
| "jabs NInf = PInf"
| "jabs NaN = NaN"

fun jsign :: "jsnum \<Rightarrow> jsnum" where
  "jsign NaN = NaN"
| "jsign x = Num (sign_of x)"

fun jsqrt :: "jsnum \<Rightarrow> jsnum" where
  "jsqrt (Num a) = (if a < 0 then NaN else Num (sqrt a))"
| "jsqrt PInf = PInf"
| "jsqrt x = NaN"

fun jexp :: "jsnum \<Rightarrow> jsnum" where
  "jexp (Num a) = Num (exp a)"
| "jexp PInf = PInf"
| "jexp NInf = Num 0"
| "jexp NaN = NaN"

fun jtanh :: "jsnum \<Rightarrow> jsnum" where
  "jtanh (Num a) = Num (tanh a)"
| "jtanh PInf = Num 1"
| "jtanh NInf = Num (- 1)"
| "jtanh NaN = NaN"

text \<open>\<^verbatim>\<open>Math.pow(x, 2)\<close>.\<close>

definition jsquare :: "jsnum \<Rightarrow> jsnum" where
  "jsquare x = jmul x x"

text \<open>
  A read \<^verbatim>\<open>xs[i]\<close> of a number array whose result goes into arithmetic: beyond the end
  the read gives \<^verbatim>\<open>undefined\<close>, which the arithmetic converts to \<^verbatim>\<open>NaN\<close>.
\<close>

definition nth_num :: "jsnum list \<Rightarrow> nat \<Rightarrow> jsnum" where
  "nth_num xs i = (if i < length xs then xs ! i else NaN)"

fun finite_num :: "jsnum \<Rightarrow> bool" where
  "finite_num (Num a) = True"
| "finite_num x = False"

fun real_of :: "jsnum \<Rightarrow> real" where
  "real_of (Num a) = a"
| "real_of x = 0"

section \<open>Normalisation of points\<close>

text \<open>
  One coordinate of \<^verbatim>\<open>normalizePoint\<close>, the body of its \<^verbatim>\<open>point.map((val, i) => ...)\<close>.
  The second component lists the divisors of the divisions that the body evaluates.
\<close>

definition normalizeCoord :: "jsnum list \<Rightarrow> jsnum list \<Rightarrow> nat \<Rightarrow> jsnum \<Rightarrow> jsnum \<times> jsnum list" where
  "normalizeCoord mins maxs i val =
     (let range = jsub (nth_num maxs i) (nth_num mins i) in
      if jeq range (Num 0) then (Num 0, [])
      else
        let scale = (if i = 2 then Num (1 / 2) else Num 1) in
        (jmul (jdiv (jsub val (nth_num mins i)) range) scale, [range]))"

definition normalizePoint :: "jsnum list \<Rightarrow> jsnum list \<Rightarrow> jsnum list \<Rightarrow> jsnum list" where
  "normalizePoint point mins maxs =
     map (\<lambda>(i, val). fst (normalizeCoord mins maxs i val)) (enumerate 0 point)"

definition normalizePoint_divisors :: "jsnum list \<Rightarrow> jsnum list \<Rightarrow> jsnum list \<Rightarrow> jsnum list" where
  "normalizePoint_divisors point mins maxs =
     concat (map (\<lambda>(i, val). snd (normalizeCoord mins maxs i val)) (enumerate 0 point))"

text \<open>One coordinate of \<^verbatim>\<open>denormalizePoint\<close>, with the divisors it evaluates.\<close>

definition denormalizeCoord :: "jsnum list \<Rightarrow> jsnum list \<Rightarrow> nat \<Rightarrow> jsnum \<Rightarrow> jsnum \<times> jsnum list" where
  "denormalizeCoord mins maxs i val =
     (let range = jsub (nth_num maxs i) (nth_num mins i) in
      if jeq range (Num 0) then (nth_num mins i, [])
      else (jadd (jmul (jdiv (jadd val (Num 1)) (Num 2)) range) (nth_num mins i), [Num 2]))"

definition denormalizePoint :: "jsnum list \<Rightarrow> jsnum list \<Rightarrow> jsnum list \<Rightarrow> jsnum list" where
  "denormalizePoint point mins maxs =
     map (\<lambda>(i, val). fst (denormalizeCoord mins maxs i val)) (enumerate 0 point)"

definition denormalizePoint_divisors :: "jsnum list \<Rightarrow> jsnum list \<Rightarrow> jsnum list \<Rightarrow> jsnum list" where
  "denormalizePoint_divisors point mins maxs =
     concat (map (\<lambda>(i, val). snd (denormalizeCoord mins maxs i val)) (enumerate 0 point))"

section \<open>Networks\<close>

text \<open>
  \<^verbatim>\<open>NeuronLayer\<close> of \<^verbatim>\<open>types/network.ts\<close>; a neuron count is a natural number.
  \<^verbatim>\<open>Weights\<close> is an object with string keys: the list of its entries in insertion order,
  each key once, read with \<open>map_of\<close> and written with \<open>AList.update\<close>, which replaces the
  entry of a key in place and appends a new key, as an assignment to a JavaScript object
  does.
\<close>

record NeuronLayer =
  num_neurons :: nat
  activation_function :: "string option"

type_synonym Weights = "(string \<times> jsnum list) list"

datatype error = TypeError

text \<open>The decimal digits of a natural number, as a template literal prints it.\<close>

function show_nat :: "nat \<Rightarrow> string" where
  "show_nat n =
     (if n < 10 then [char_of (48 + n)]
      else show_nat (n div 10) @ [char_of (48 + n mod 10)])"
  by pat_completeness auto
termination
  by (relation "measure id") auto

definition layerKey :: "nat \<Rightarrow> string" where
  "layerKey i = ''layer'' @ show_nat i @ ''_'' @ show_nat (i + 1)"

section \<open>Activation functions\<close>

definition sigmoid :: "jsnum \<Rightarrow> jsnum" where
  "sigmoid x = jdiv (Num 1) (jadd (Num 1) (jexp (jneg x)))"

definition relu :: "jsnum \<Rightarrow> jsnum" where
  "relu x = jmax (Num 0) x"

definition linear' :: "jsnum \<Rightarrow> jsnum" where
  "linear' x = x"

definition sigmoidDerivative :: "jsnum \<Rightarrow> jsnum" where
  "sigmoidDerivative x = (let s = sigmoid x in jmul s (jsub (Num 1) s))"

definition reluDerivative :: "jsnum \<Rightarrow> jsnum" where
  "reluDerivative x = (if jgt x (Num 0) then Num 1 else Num 0)"

definition tanhDerivative :: "jsnum \<Rightarrow> jsnum" where
  "tanhDerivative x = jsub (Num 1) (jsquare (jtanh x))"

definition linearDerivative :: "jsnum \<Rightarrow> jsnum" where
  "linearDerivative x = Num 1"

record activation =
  output' :: "jsnum \<Rightarrow> jsnum"
  derivative :: "jsnum \<Rightarrow> jsnum"

definition getActivationFunction :: "string option \<Rightarrow> activation" where
  "getActivationFunction type =
     (if type = Some ''relu'' then \<lparr>output' = relu, derivative = reluDerivative\<rparr>
      else if type = Some ''tanh'' then \<lparr>output' = jtanh, derivative = tanhDerivative\<rparr>
      else if type = Some ''linear'' then \<lparr>output' = linear', derivative = linearDerivative\<rparr>
      else \<lparr>output' = sigmoid, derivative = sigmoidDerivative\<rparr>)"

section \<open>Forward propagation\<close>

definition ensureBounds :: "jsnum \<Rightarrow> jsnum \<Rightarrow> jsnum \<Rightarrow> jsnum" where
  "ensureBounds val lo hi = jmax lo (jmin hi val)"

text \<open>
  The loop over \<open>k\<close> of \<^verbatim>\<open>forward\<close> and of \<^verbatim>\<open>backpropagate\<close>:
  \<^verbatim>\<open>next[j] += current[k] * layerWeights[k * nextLayerSize + j]\<close>. When the weight table
  has no entry for the layer pair, \<^verbatim>\<open>layerWeights\<close> is \<^verbatim>\<open>undefined\<close> and the first read of
  it throws a \<^verbatim>\<open>TypeError\<close>.
\<close>

fun weighted_sum ::
  "jsnum list option \<Rightarrow> nat \<Rightarrow> jsnum list \<Rightarrow> nat \<Rightarrow> nat list \<Rightarrow> jsnum \<Rightarrow> error + jsnum" where
  "weighted_sum layerWeights nextLayerSize current j [] acc = Inr acc"
| "weighted_sum layerWeights nextLayerSize current j (k # ks) acc =
     (case layerWeights of
        None \<Rightarrow> Inl TypeError
      | Some ws \<Rightarrow>
          weighted_sum layerWeights nextLayerSize current j ks
            (jadd acc (jmul (nth_num current k) (nth_num ws (k * nextLayerSize + j)))))"

text \<open>
  The value of \<^verbatim>\<open>next[j]\<close> before the activation: \<^verbatim>\<open>biases[i + 1][j]\<close> plus the weighted
  sum. When the bias table has no row \<open>i + 1\<close>, \<^verbatim>\<open>biases[i + 1]\<close> is \<^verbatim>\<open>undefined\<close> and
  reading its element \<open>j\<close> throws.
\<close>

definition neuron_input ::
  "jsnum list list \<Rightarrow> jsnum list option \<Rightarrow> nat \<Rightarrow> nat \<Rightarrow> nat \<Rightarrow> jsnum list \<Rightarrow> nat
     \<Rightarrow> error + jsnum" where
  "neuron_input biases layerWeights i currentLayerSize nextLayerSize current j =
     (if i + 1 < length biases
      then weighted_sum layerWeights nextLayerSize current j [0..<currentLayerSize]
             (nth_num (biases ! (i + 1)) j)
      else Inl TypeError)"

text \<open>A loop that fills an array element by element and stops at the first exception.\<close>

fun map_err :: "('a \<Rightarrow> error + 'b) \<Rightarrow> 'a list \<Rightarrow> error + 'b list" where
  "map_err f [] = Inr []"
| "map_err f (x # xs) =
     (case f x of
        Inl e \<Rightarrow> Inl e
      | Inr y \<Rightarrow> (case map_err f xs of Inl e \<Rightarrow> Inl e | Inr ys \<Rightarrow> Inr (y # ys)))"

text \<open>One iteration of the loop over \<open>i\<close> of \<^verbatim>\<open>forward\<close>: the array \<^verbatim>\<open>next\<close>.\<close>

definition forward_layer ::
  "NeuronLayer list \<Rightarrow> Weights \<Rightarrow> jsnum list list \<Rightarrow> nat \<Rightarrow> jsnum list \<Rightarrow> error + jsnum list" where
  "forward_layer layers weights biases i current =
     (let currentLayerSize = num_neurons (layers ! i);
          nextLayerSize = num_neurons (layers ! (i + 1));
          activation = getActivationFunction (activation_function (layers ! i));
          layerWeights = map_of weights (layerKey i)
      in map_err
           (\<lambda>j. case neuron_input biases layerWeights i currentLayerSize nextLayerSize current j of
                  Inl e \<Rightarrow> Inl e
                | Inr z \<Rightarrow>
                    Inr (let a = output' activation z in
                         if i + 2 = length layers then ensureBounds a (Num (- 1)) (Num 1) else a))
           [0..<nextLayerSize])"

fun forward_loop ::
  "NeuronLayer list \<Rightarrow> Weights \<Rightarrow> jsnum list list \<Rightarrow> nat list \<Rightarrow> jsnum list \<Rightarrow> error + jsnum list" where
  "forward_loop layers weights biases [] current = Inr current"
| "forward_loop layers weights biases (i # is) current =
     (case forward_layer layers weights biases i current of
        Inl e \<Rightarrow> Inl e
      | Inr next \<Rightarrow> forward_loop layers weights biases is next)"

definition forward ::
  "jsnum list \<Rightarrow> NeuronLayer list \<Rightarrow> Weights \<Rightarrow> jsnum list list \<Rightarrow> error + jsnum list" where
  "forward input layers weights biases =
     forward_loop layers weights biases [0..<length layers - 1] input"

section \<open>Backpropagation\<close>

text \<open>A training example or a neighbour: \<^verbatim>\<open>{ input: number[], target: number[] }\<close>.\<close>

record sample =
  input :: "jsnum list"
  target :: "jsnum list"

record gradients =
  weightGradients :: Weights
  biasGradients :: "jsnum list list"

text \<open>
  The forward pass of \<^verbatim>\<open>backpropagate\<close> stores the array \<^verbatim>\<open>z\<close> of every layer pair and
  the activations; it does not clamp the last layer.
\<close>

definition backprop_layer ::
  "NeuronLayer list \<Rightarrow> Weights \<Rightarrow> jsnum list list \<Rightarrow> nat \<Rightarrow> jsnum list \<Rightarrow> error + jsnum list" where
  "backprop_layer layers weights biases i current =
     (let currentLayerSize = num_neurons (layers ! i);
          nextLayerSize = num_neurons (layers ! (i + 1));
          layerWeights = map_of weights (layerKey i)
      in map_err (neuron_input biases layerWeights i currentLayerSize nextLayerSize current)
           [0..<nextLayerSize])"

fun backprop_forward_loop ::
  "NeuronLayer list \<Rightarrow> Weights \<Rightarrow> jsnum list list \<Rightarrow> nat list \<Rightarrow> jsnum list
     \<Rightarrow> jsnum list list \<Rightarrow> jsnum list list \<Rightarrow> error + (jsnum list list \<times> jsnum list list)" where
  "backprop_forward_loop layers weights biases [] current activations zs = Inr (activations, zs)"
| "backprop_forward_loop layers weights biases (i # is) current activations zs =
     (case backprop_layer layers weights biases i current of
        Inl e \<Rightarrow> Inl e
      | Inr z \<Rightarrow>
          (let activation = getActivationFunction (activation_function (layers ! i));
               current' = map (output' activation) z
           in backprop_forward_loop layers weights biases is current'
                (activations @ [current']) (zs @ [z])))"

text \<open>
  The body of \<^verbatim>\<open>neighbors.forEach\<close> for output dimension \<open>i\<close> with output \<open>out\<close>: each
  neighbour is evaluated by a call of \<^verbatim>\<open>forward\<close>, and \<^verbatim>\<open>geoGrad\<close> accumulates
  \<^verbatim>\<open>2 * distDiff * Math.sign(outputDiff)\<close>.
\<close>

fun geoGrad_loop ::
  "NeuronLayer list \<Rightarrow> Weights \<Rightarrow> jsnum list list \<Rightarrow> jsnum list \<Rightarrow> nat \<Rightarrow> jsnum \<Rightarrow> sample list
     \<Rightarrow> jsnum \<Rightarrow> error + jsnum" where
  "geoGrad_loop layers weights biases tgt i out [] geoGrad = Inr geoGrad"
| "geoGrad_loop layers weights biases tgt i out (neighbor # ns) geoGrad =
     (case forward (input neighbor) layers weights biases of
        Inl e \<Rightarrow> Inl e
      | Inr neighborOutput \<Rightarrow>
          (let outputDiff = jsub out (nth_num neighborOutput i);
               targetDiff = jsub (nth_num tgt i) (nth_num (target neighbor) i);
               distDiff = jsub (jabs outputDiff) (jabs targetDiff)
           in geoGrad_loop layers weights biases tgt i out ns
                (jadd geoGrad (jmul (jmul (Num 2) distDiff) (jsign outputDiff)))))"

text \<open>The first value of \<^verbatim>\<open>delta\<close>: \<^verbatim>\<open>mseGrad + 0.1 * geoGrad\<close> for every output.\<close>

definition output_delta ::
  "NeuronLayer list \<Rightarrow> Weights \<Rightarrow> jsnum list list \<Rightarrow> jsnum list \<Rightarrow> sample list \<Rightarrow> jsnum list
     \<Rightarrow> error + jsnum list" where
  "output_delta layers weights biases tgt neighbors outputs =
     map_err
       (\<lambda>(i, out).
          (let mseGrad = jsub out (nth_num tgt i) in
           case geoGrad_loop layers weights biases tgt i out neighbors (Num 0) of
             Inl e \<Rightarrow> Inl e
           | Inr geoGrad \<Rightarrow> Inr (jadd mseGrad (jmul (Num (1 / 10)) geoGrad))))
       (enumerate 0 outputs)"

text \<open>
  The loop over \<open>j\<close> that accumulates \<^verbatim>\<open>newDelta[i] += weights[layerKey][weightIndex] * delta[j]\<close>.
\<close>

fun delta_sum ::
  "jsnum list option \<Rightarrow> nat \<Rightarrow> jsnum list \<Rightarrow> nat \<Rightarrow> nat list \<Rightarrow> jsnum \<Rightarrow> error + jsnum" where
  "delta_sum layerWeights nextLayerSize delta i [] acc = Inr acc"
| "delta_sum layerWeights nextLayerSize delta i (j # js) acc =
     (case layerWeights of
        None \<Rightarrow> Inl TypeError
      | Some ws \<Rightarrow>
          delta_sum layerWeights nextLayerSize delta i js
            (jadd acc (jmul (nth_num ws (i * nextLayerSize + j)) (nth_num delta j))))"

text \<open>The backward loop, for \<open>l\<close> from \<^verbatim>\<open>layers.length - 2\<close> down to \<open>0\<close>.\<close>

fun backward_loop ::
  "NeuronLayer list \<Rightarrow> Weights \<Rightarrow> jsnum list list \<Rightarrow> jsnum list list \<Rightarrow> nat list \<Rightarrow> jsnum list
     \<Rightarrow> gradients \<Rightarrow> error + gradients" where
  "backward_loop layers weights activations zs [] delta g = Inr g"
| "backward_loop layers weights activations zs (l # ls) delta g =
     (let activation = getActivationFunction (activation_function (layers ! l));
          size = num_neurons (layers ! l);
          nextSize = num_neurons (layers ! (l + 1));
          layerGradients =
            concat (map (\<lambda>i. map (\<lambda>j. jmul (nth_num (activations ! l) i) (nth_num delta j))
                                [0..<nextSize]) [0..<size]);
          g' = g\<lparr>weightGradients := AList.update (layerKey l) layerGradients (weightGradients g),
                  biasGradients := (biasGradients g)[l + 1 := delta]\<rparr>
      in if 0 < l then
           (case map_err
                   (\<lambda>i. case delta_sum (map_of weights (layerKey l)) nextSize delta i
                                [0..<nextSize] (Num 0) of
                          Inl e \<Rightarrow> Inl e
                        | Inr s \<Rightarrow> Inr (jmul s (derivative activation (nth_num (zs ! (l - 1)) i))))
                   [0..<size] of
              Inl e \<Rightarrow> Inl e
            | Inr newDelta \<Rightarrow> backward_loop layers weights activations zs ls newDelta g')
         else backward_loop layers weights activations zs ls delta g')"

definition backpropagate ::
  "jsnum list \<Rightarrow> jsnum list \<Rightarrow> sample list \<Rightarrow> NeuronLayer list \<Rightarrow> Weights \<Rightarrow> jsnum list list
     \<Rightarrow> error + gradients" where
  "backpropagate inp tgt neighbors layers weights biases =
     (case backprop_forward_loop layers weights biases [0..<length layers - 1] inp [inp] [] of
        Inl e \<Rightarrow> Inl e
      | Inr (activations, zs) \<Rightarrow>
          (case output_delta layers weights biases tgt neighbors (last activations) of
             Inl e \<Rightarrow> Inl e
           | Inr delta \<Rightarrow>
               backward_loop layers weights activations zs (rev [0..<length layers - 1]) delta
                 \<lparr>weightGradients = [],
                  biasGradients = map (\<lambda>layer. replicate (num_neurons layer) (Num 0)) layers\<rparr>))"

section \<open>Loss and neighbours\<close>

definition distance :: "jsnum list \<Rightarrow> jsnum list \<Rightarrow> jsnum" where
  "distance p1 p2 =
     jsqrt (foldl (\<lambda>sum (i, val). jadd sum (jsquare (jsub val (nth_num p2 i)))) (Num 0)
              (enumerate 0 p1))"

text \<open>
  \<^verbatim>\<open>computeGeometricLoss\<close>. The arrays \<^verbatim>\<open>neighborsPred\<close> and \<^verbatim>\<open>neighborsTarget\<close> are read at
  the same index; where \<^verbatim>\<open>neighborsTarget[i]\<close> is \<^verbatim>\<open>undefined\<close>, \<^verbatim>\<open>distance\<close> throws as soon
  as it reads a coordinate of it, that is when \<^verbatim>\<open>target\<close> is not empty.
\<close>

definition dimWeights :: "jsnum list" where
  "dimWeights = [Num 1, Num 1, Num (3 / 2)]"

definition computeGeometricLoss ::
  "jsnum list \<Rightarrow> jsnum list \<Rightarrow> jsnum list list \<Rightarrow> jsnum list list \<Rightarrow> error + jsnum" where
  "computeGeometricLoss predicted tgt neighborsPred neighborsTarget =
     (let geometricLoss =
            jadd (Num 0)
              (foldl (\<lambda>sum (dim, val).
                        jadd sum (jmul (nth_num dimWeights dim) (jsquare (jsub val (nth_num tgt dim)))))
                 (Num 0) (enumerate 0 predicted))
      in case map_err
                (\<lambda>i. let distPred = distance predicted (neighborsPred ! i) in
                      if i < length neighborsTarget
                      then Inr (jsquare (jsub distPred (distance tgt (neighborsTarget ! i))))
                      else if tgt = [] then Inr (jsquare (jsub distPred (jsqrt (Num 0))))
                      else Inl TypeError)
                [0..<length neighborsPred] of
           Inl e \<Rightarrow> Inl e
         | Inr terms \<Rightarrow> Inr (foldl jadd geometricLoss terms))"

text \<open>
  \<^verbatim>\<open>findKNearestNeighbors\<close>. The source returns the chosen arrays of \<^verbatim>\<open>points\<close>, and
  \<^verbatim>\<open>trainNetwork\<close> finds the example of each again by reference (\<^verbatim>\<open>d.input === n\<close>). Every
  example has an input array of its own, so an array is identified by its position in
  \<^verbatim>\<open>points\<close>, and the model returns the positions. \<^verbatim>\<open>Array.prototype.sort\<close> is stable:
  the comparator \<^verbatim>\<open>a.dist - b.dist\<close> orders by distance and keeps the order of equals.
\<close>

fun insert_by_dist :: "nat \<times> jsnum \<Rightarrow> (nat \<times> jsnum) list \<Rightarrow> (nat \<times> jsnum) list" where
  "insert_by_dist x [] = [x]"
| "insert_by_dist x (y # ys) =
     (if jlt (snd x) (snd y) then x # y # ys else y # insert_by_dist x ys)"

definition sort_by_dist :: "(nat \<times> jsnum) list \<Rightarrow> (nat \<times> jsnum) list" where
  "sort_by_dist xs = foldl (\<lambda>sorted x. insert_by_dist x sorted) [] xs"

definition findKNearestNeighbors :: "jsnum list \<Rightarrow> jsnum list list \<Rightarrow> nat \<Rightarrow> nat list" where
  "findKNearestNeighbors point points k =
     map fst
       (take k
          (sort_by_dist
             (filter (\<lambda>(i, dist). jgt dist (Num 0))
                (map (\<lambda>(i, p). (i, distance point p)) (enumerate 0 points)))))"

section \<open>Bounds\<close>

text \<open>
  An assignment \<^verbatim>\<open>xs[i] = v\<close>. In \<^verbatim>\<open>findBounds\<close> the index runs upwards from \<open>0\<close>, so it
  is at most the length of the array, and the assignment at the length appends.
\<close>

definition assign_at :: "'a list \<Rightarrow> nat \<Rightarrow> 'a \<Rightarrow> 'a list" where
  "assign_at xs i v = (if i < length xs then xs[i := v] else xs @ [v])"

definition findBounds :: "jsnum list list \<Rightarrow> error + (jsnum list \<times> jsnum list)" where
  "findBounds points =
     (case points of
        [] \<Rightarrow> Inl TypeError
      | p0 # _ \<Rightarrow>
          (let dims = length p0 in
           Inr (foldl
                  (\<lambda>bounds point.
                     foldl (\<lambda>(mins, maxs) (i, val).
                              (assign_at mins i (jmin (nth_num mins i) val),
                               assign_at maxs i (jmax (nth_num maxs i) val)))
                       bounds (enumerate 0 point))
                  (replicate dims PInf, replicate dims NInf) points)))"

section \<open>Training\<close>

text \<open>
  \<^verbatim>\<open>JSON.parse(JSON.stringify(x))\<close> on a table of numbers: a finite number is copied;
  \<^verbatim>\<open>NaN\<close> and the infinities are written as \<^verbatim>\<open>null\<close>, which every later arithmetic use
  converts to \<open>0\<close>.
\<close>

fun json_number :: "jsnum \<Rightarrow> jsnum" where
  "json_number (Num a) = Num a"
| "json_number x = Num 0"

definition json_copy_biases :: "jsnum list list \<Rightarrow> jsnum list list" where
  "json_copy_biases biases = map (map json_number) biases"

definition json_copy_weights :: "Weights \<Rightarrow> Weights" where
  "json_copy_weights weights = map (\<lambda>(key, vals). (key, map json_number vals)) weights"

text \<open>
  \<^verbatim>\<open>Number(Number(w).toFixed(2))\<close>: two decimals, a tie rounded away from zero; a number
  of magnitude \<open>10\<^sup>2\<^sup>1\<close> or more, an infinity and \<^verbatim>\<open>NaN\<close> are printed and read back as they are.
\<close>

fun toFixed2 :: "jsnum \<Rightarrow> jsnum" where
  "toFixed2 (Num a) =
     (if 10 ^ 21 \<le> \<bar>a\<bar> then Num a
      else Num (sgn a * real_of_int \<lfloor>\<bar>a\<bar> * 100 + 1 / 2\<rfloor> / 100))"
| "toFixed2 x = x"

definition formatWeightsForDisplay :: "Weights \<Rightarrow> Weights" where
  "formatWeightsForDisplay weights = map (\<lambda>(key, vals). (key, map toFixed2 vals)) weights"

definition clipGradients :: "Weights \<Rightarrow> jsnum \<Rightarrow> Weights" where
  "clipGradients gradients maxNorm =
     map (\<lambda>(key, gs).
            (let norm = jsqrt (foldl (\<lambda>sum g. jadd sum (jmul g g)) (Num 0) gs) in
             if jgt norm maxNorm
             then (let scale = jdiv maxNorm norm in (key, map (\<lambda>g. jmul g scale) gs))
             else (key, gs)))
       gradients"

text \<open>
  Objects. A weight table and a bias table are objects: a parameter or a variable holds a
  reference to one, an assignment to a property of the object is seen by every holder of a
  reference to it, and \<^verbatim>\<open>JSON.parse\<close> and \<^verbatim>\<open>map\<close> create an object that nothing else refers
  to. The store gives the object of every reference. The references below \<open>nextWeights\<close>
  and below \<open>nextBiases\<close> are those of the objects that exist; a new object takes the
  next reference. A table holds its rows by value: the source assigns to properties of
  tables, and no assignment of the source has an element of a row of a weight table or of
  a bias table as its target.
\<close>

type_synonym addr = nat

record object_store =
  weightTables :: "addr \<Rightarrow> Weights"
  biasTables :: "addr \<Rightarrow> jsnum list list"
  nextWeights :: addr
  nextBiases :: addr

definition newWeights :: "Weights \<Rightarrow> object_store \<Rightarrow> addr \<times> object_store" where
  "newWeights table s =
     (nextWeights s,
      s\<lparr>weightTables := (weightTables s)(nextWeights s := table), nextWeights := nextWeights s + 1\<rparr>)"

definition newBiases :: "jsnum list list \<Rightarrow> object_store \<Rightarrow> addr \<times> object_store" where
  "newBiases table s =
     (nextBiases s,
      s\<lparr>biasTables := (biasTables s)(nextBiases s := table), nextBiases := nextBiases s + 1\<rparr>)"

text \<open>The assignment \<^verbatim>\<open>table[key] = row\<close> to the weight table that \<open>table\<close> refers to.\<close>

definition assignEntry :: "addr \<Rightarrow> string \<Rightarrow> jsnum list \<Rightarrow> object_store \<Rightarrow> object_store" where
  "assignEntry table key row s =
     s\<lparr>weightTables := (weightTables s)(table := AList.update key row (weightTables s table))\<rparr>"

text \<open>
  The state of a run of \<^verbatim>\<open>trainNetwork\<close>: the store, the variables \<^verbatim>\<open>currentWeights\<close> and
  \<^verbatim>\<open>currentBiases\<close>, which hold references, the velocities and the error. The tables of the
  velocities and of the gradients are created by \<^verbatim>\<open>trainNetwork\<close> and \<^verbatim>\<open>backpropagate\<close>
  themselves, and the caller is given no reference to them: each is held by its value,
  which an assignment to the table replaces.
\<close>

record train_state =
  store :: object_store
  currentWeights :: addr
  currentBiases :: addr
  weightVelocities :: Weights
  biasVelocities :: "jsnum list list"
  totalError :: jsnum

text \<open>The object \<^verbatim>\<open>batchGradients\<close>, with its fields \<^verbatim>\<open>weights\<close> and \<^verbatim>\<open>biases\<close>.\<close>

record batchGradients =
  bg_weights :: Weights
  bg_biases :: "jsnum list list"

text \<open>
  What a run does not change: the layers, the parameter \<^verbatim>\<open>biases\<close>, which is the reference
  that the caller passed, the options after their defaults, the normalised data, and the
  random choices. \<^verbatim>\<open>[...normalizedData].sort(() => Math.random() - 0.5)\<close> returns the
  examples in an order that the random numbers decide; \<open>shuffle epoch\<close> is the reordering
  of that epoch.
\<close>

record run_params =
  p_layers :: "NeuronLayer list"
  p_biases :: addr
  p_learningRate :: jsnum
  p_epochs :: nat
  p_batchSize :: nat
  p_l2Factor :: jsnum
  p_normalizedData :: "sample list"
  p_shuffle :: "nat \<Rightarrow> sample list \<Rightarrow> sample list"

text \<open>The accumulation of the gradients of one example into \<^verbatim>\<open>batchGradients\<close>.\<close>

definition accumulate_weights :: "Weights \<Rightarrow> Weights \<Rightarrow> Weights" where
  "accumulate_weights weightGrads batchWeights =
     fold (\<lambda>(key, wg) bw.
             case map_of bw key of
               None \<Rightarrow> AList.update key wg bw
             | Some gs \<Rightarrow>
                 AList.update key (map (\<lambda>(i, g). jadd g (nth_num wg i)) (enumerate 0 gs)) bw)
       weightGrads batchWeights"

definition accumulate_biases :: "jsnum list list \<Rightarrow> jsnum list list \<Rightarrow> error + jsnum list list" where
  "accumulate_biases biasGrads batchBiases =
     map_err (\<lambda>(i, layer).
                if layer = [] then Inr []
                else if i < length biasGrads
                then Inr (map (\<lambda>(j, g). jadd g (nth_num (biasGrads ! i) j)) (enumerate 0 layer))
                else Inl TypeError)
       (enumerate 0 batchBiases)"

text \<open>The body of the loop \<^verbatim>\<open>for (const example of batch)\<close>.\<close>

definition example_step ::
  "run_params \<Rightarrow> sample list \<Rightarrow> sample \<Rightarrow> batchGradients \<Rightarrow> train_state
     \<Rightarrow> (error + batchGradients) \<times> train_state" where
  "example_step P batch example bg st =
     (case forward (input example) (p_layers P) (weightTables (store st) (currentWeights st))
             (biasTables (store st) (currentBiases st)) of
        Inl e \<Rightarrow> (Inl e, st)
      | Inr out \<Rightarrow>
          (let k = min 5 (length batch - 1);
               neighbors = findKNearestNeighbors (input example) (map input batch) k
           in case map_err (\<lambda>n. forward (input (batch ! n)) (p_layers P)
                                   (weightTables (store st) (currentWeights st))
                                   (biasTables (store st) (currentBiases st))) neighbors of
                Inl e \<Rightarrow> (Inl e, st)
              | Inr neighborOutputs \<Rightarrow>
                  (let neighborTargets = map (\<lambda>n. target (batch ! n)) neighbors;
                       mseLoss =
                         foldl (\<lambda>sum (i, ou).
                                  jadd sum (jmul (Num (1 / 2))
                                              (jsquare (jsub ou (nth_num (target example) i)))))
                           (Num 0) (enumerate 0 out)
                   in case computeGeometricLoss out (target example) neighborOutputs
                             neighborTargets of
                        Inl e \<Rightarrow> (Inl e, st)
                      | Inr geometricLoss \<Rightarrow>
                          (let st1 = st\<lparr>totalError :=
                                          jadd (totalError st)
                                            (jadd mseLoss (jmul (Num (1 / 10)) geometricLoss))\<rparr>;
                               st2 = st1\<lparr>totalError :=
                                           foldl (\<lambda>te (key, layerWeights).
                                                    jadd te
                                                      (jmul (p_l2Factor P)
                                                         (foldl (\<lambda>sum w.
                                                                   jadd sum (jmul (jmul (Num (1 / 2)) w) w))
                                                            (Num 0) layerWeights)))
                                             (totalError st1)
                                             (weightTables (store st1) (currentWeights st1))\<rparr>
                           in case backpropagate (input example) (target example)
                                     (map (\<lambda>n. \<lparr>input = input (batch ! n), target = target (batch ! n)\<rparr>)
                                        neighbors)
                                     (p_layers P) (weightTables (store st2) (currentWeights st2))
                                     (biasTables (store st2) (currentBiases st2)) of
                                Inl e \<Rightarrow> (Inl e, st2)
                              | Inr grads \<Rightarrow>
                                  (case accumulate_biases (biasGradients grads) (bg_biases bg) of
                                     Inl e \<Rightarrow> (Inl e, st2)
                                   | Inr bb \<Rightarrow>
                                       (Inr \<lparr>bg_weights =
                                                accumulate_weights (weightGradients grads) (bg_weights bg),
                                              bg_biases = bb\<rparr>, st2))))))"

fun examples_loop ::
  "run_params \<Rightarrow> sample list \<Rightarrow> sample list \<Rightarrow> batchGradients \<Rightarrow> train_state
     \<Rightarrow> (error + batchGradients) \<times> train_state" where
  "examples_loop P batch [] bg st = (Inr bg, st)"
| "examples_loop P batch (example # rest) bg st =
     (case example_step P batch example bg st of
        (Inl e, st') \<Rightarrow> (Inl e, st')
      | (Inr bg', st') \<Rightarrow> examples_loop P batch rest bg' st')"

text \<open>
  The update of the weights, the body of \<^verbatim>\<open>Object.keys(batchGradients.weights).forEach\<close>
  for the entries of \<^verbatim>\<open>batchGradients.weights\<close> in order. Where \<^verbatim>\<open>weightVelocities\<close> or
  \<^verbatim>\<open>currentWeights\<close> has no entry for the key, the call of \<^verbatim>\<open>map\<close> on \<^verbatim>\<open>undefined\<close> throws.
  \<^verbatim>\<open>currentWeights[key] = ...\<close> assigns to the table that \<^verbatim>\<open>currentWeights\<close> refers to.
\<close>

definition new_velocity :: "jsnum \<Rightarrow> jsnum \<Rightarrow> jsnum \<Rightarrow> jsnum \<Rightarrow> jsnum \<Rightarrow> jsnum \<Rightarrow> jsnum" where
  "new_velocity momentum scaledLR l2 v g w =
     (let l2Gradient = jmul l2 w in
      jsub (jmul momentum v) (jmul scaledLR (jadd g l2Gradient)))"

fun update_weights ::
  "jsnum \<Rightarrow> jsnum \<Rightarrow> jsnum \<Rightarrow> Weights \<Rightarrow> train_state \<Rightarrow> error option \<times> train_state" where
  "update_weights momentum scaledLR l2 [] st = (None, st)"
| "update_weights momentum scaledLR l2 ((key, gs) # rest) st =
     (case map_of (weightVelocities st) key of
        None \<Rightarrow> (Some TypeError, st)
      | Some vs \<Rightarrow>
          (case map_of (weightTables (store st) (currentWeights st)) key of
             None \<Rightarrow> (Some TypeError, st)
           | Some ws \<Rightarrow>
               (let vs' = map (\<lambda>(i, v). new_velocity momentum scaledLR l2 v (nth_num gs i)
                                          (nth_num ws i))
                            (enumerate 0 vs);
                    ws' = map (\<lambda>(i, w). jadd w (nth_num vs' i)) (enumerate 0 ws)
                in update_weights momentum scaledLR l2 rest
                     (st\<lparr>weightVelocities := AList.update key vs' (weightVelocities st),
                         store := assignEntry (currentWeights st) key ws' (store st)\<rparr>))))"

text \<open>
  The update of the biases. Row \<open>i\<close> of \<^verbatim>\<open>currentBiases\<close> is mapped to its new values, and
  the callback assigns the new velocities into row \<open>i\<close> of \<^verbatim>\<open>biasVelocities\<close>; a row of
  \<^verbatim>\<open>biasVelocities\<close> or of \<^verbatim>\<open>batchGradients.biases\<close> that is not there throws when the
  callback reads it. When all rows are done, the variable \<^verbatim>\<open>currentBiases\<close> is assigned the
  reference to the table that \<^verbatim>\<open>map\<close> has created; the table that it referred to is not
  assigned to.
\<close>

definition new_bias_velocity :: "jsnum \<Rightarrow> jsnum \<Rightarrow> jsnum \<Rightarrow> jsnum \<Rightarrow> jsnum" where
  "new_bias_velocity momentum scaledLR v g = jsub (jmul momentum v) (jmul scaledLR g)"

fun update_bias_rows ::
  "jsnum \<Rightarrow> jsnum \<Rightarrow> jsnum list list \<Rightarrow> (nat \<times> jsnum list) list \<Rightarrow> jsnum list list
     \<Rightarrow> jsnum list list \<Rightarrow> (error + jsnum list list) \<times> jsnum list list" where
  "update_bias_rows momentum scaledLR batchBiases [] velocities done = (Inr done, velocities)"
| "update_bias_rows momentum scaledLR batchBiases ((i, layer) # rest) velocities done =
     (if layer = [] then
        update_bias_rows momentum scaledLR batchBiases rest velocities (done @ [[]])
      else if i < length velocities \<and> i < length batchBiases then
        (let vrow = map (\<lambda>j. new_bias_velocity momentum scaledLR (nth_num (velocities ! i) j)
                                 (nth_num (batchBiases ! i) j))
                      [0..<length layer];
             layer' = map (\<lambda>(j, b). jadd b (nth_num vrow j)) (enumerate 0 layer)
         in update_bias_rows momentum scaledLR batchBiases rest
              (velocities[i := vrow @ drop (length layer) (velocities ! i)]) (done @ [layer']))
      else (Inl TypeError, velocities))"

definition update_biases ::
  "jsnum \<Rightarrow> jsnum \<Rightarrow> jsnum list list \<Rightarrow> train_state \<Rightarrow> error option \<times> train_state" where
  "update_biases momentum scaledLR batchBiases st =
     (case update_bias_rows momentum scaledLR batchBiases
             (enumerate 0 (biasTables (store st) (currentBiases st))) (biasVelocities st) [] of
        (Inl e, velocities) \<Rightarrow> (Some e, st\<lparr>biasVelocities := velocities\<rparr>)
      | (Inr rows, velocities) \<Rightarrow>
          (None, st\<lparr>biasVelocities := velocities,
                    store := snd (newBiases rows (store st)),
                    currentBiases := fst (newBiases rows (store st))\<rparr>))"

text \<open>
  One mini-batch: the gradients of its examples are accumulated, the weight gradients are
  clipped to the norm \<open>0.5\<close>, and the parameters are updated with the learning rate
  \<^verbatim>\<open>decayedLR / batch.length\<close>.
\<close>

definition clip_batch :: "batchGradients \<Rightarrow> batchGradients" where
  "clip_batch bg = bg\<lparr>bg_weights := clipGradients (bg_weights bg) (Num (1 / 2))\<rparr>"

definition update_parameters ::
  "jsnum \<Rightarrow> jsnum \<Rightarrow> jsnum \<Rightarrow> sample list \<Rightarrow> batchGradients \<Rightarrow> train_state
     \<Rightarrow> error option \<times> train_state" where
  "update_parameters momentum decayedLR l2 batch bg st =
     (let scaledLR = jdiv decayedLR (Num (real (length batch))) in
      case update_weights momentum scaledLR l2 (bg_weights bg) st of
        (Some e, st') \<Rightarrow> (Some e, st')
      | (None, st') \<Rightarrow> update_biases momentum scaledLR (bg_biases bg) st')"

definition batch_step ::
  "run_params \<Rightarrow> jsnum \<Rightarrow> jsnum \<Rightarrow> sample list \<Rightarrow> train_state \<Rightarrow> error option \<times> train_state" where
  "batch_step P momentum decayedLR batch st =
     (let bg0 = \<lparr>bg_weights = [],
                 bg_biases = map (\<lambda>layer. replicate (length layer) (Num 0))
                               (biasTables (store st) (p_biases P))\<rparr>
      in case examples_loop P batch batch bg0 st of
           (Inl e, st') \<Rightarrow> (Some e, st')
         | (Inr bg, st') \<Rightarrow>
             update_parameters momentum decayedLR (p_l2Factor P) batch (clip_batch bg) st')"

text \<open>
  The loop \<^verbatim>\<open>for (let i = 0; i < shuffledData.length; i += batchSize)\<close>. With
  \<^verbatim>\<open>batchSize\<close> zero the index does not advance and the loop does not return: the
  result \<open>None\<close>.
\<close>

partial_function (option) batch_loop ::
  "run_params \<Rightarrow> jsnum \<Rightarrow> jsnum \<Rightarrow> sample list \<Rightarrow> nat \<Rightarrow> train_state
     \<Rightarrow> (error option \<times> train_state) option" where
  "batch_loop P momentum decayedLR shuffledData i st =
     (if i < length shuffledData then
        (let batch = take (min (i + p_batchSize P) (length shuffledData) - i) (drop i shuffledData)
         in case batch_step P momentum decayedLR batch st of
              (Some e, st') \<Rightarrow> Some (Some e, st')
            | (None, st') \<Rightarrow> batch_loop P momentum decayedLR shuffledData (i + p_batchSize P) st')
      else Some (None, st))"

text \<open>
  A call of \<^verbatim>\<open>onProgress\<close>: the epoch, the mean error, the display weights and the bias
  table that it is given, as they are at the call, and the value that it returns.
\<close>

type_synonym 'r progress_call = "nat \<times> jsnum \<times> Weights \<times> jsnum list list \<times> 'r"

text \<open>
  The loop over the epochs, from the epoch \<open>epoch\<close> on. It keeps the list of the calls
  of \<^verbatim>\<open>onProgress\<close> made so far.
\<close>

function epoch_loop ::
  "run_params \<Rightarrow> (nat \<Rightarrow> jsnum \<Rightarrow> Weights \<Rightarrow> jsnum list list \<Rightarrow> 'r) option \<Rightarrow> nat \<Rightarrow> train_state
     \<Rightarrow> 'r progress_call list \<Rightarrow> (error option \<times> train_state \<times> 'r progress_call list) option" where
  "epoch_loop P onProgress epoch st calls =
     (if epoch < p_epochs P then
        (let st0 = st\<lparr>totalError := Num 0\<rparr>;
             shuffledData = p_shuffle P epoch (p_normalizedData P);
             momentum = Num (9 / 10 + (1 - 9 / 10) * (real epoch / real (p_epochs P)));
             decayedLR = jmul (p_learningRate P) (Num ((998 / 1000) ^ epoch))
         in case batch_loop P momentum decayedLR shuffledData 0 st0 of
              None \<Rightarrow> None
            | Some (Some e, st1) \<Rightarrow> Some (Some e, st1, calls)
            | Some (None, st1) \<Rightarrow>
                (let avgError = jdiv (totalError st1) (Num (real (length (p_normalizedData P))));
                     calls' =
                       (case onProgress of
                          None \<Rightarrow> calls
                        | Some callback \<Rightarrow>
                            (let displayWeights =
                                   formatWeightsForDisplay
                                     (weightTables (store st1) (currentWeights st1));
                                 biasTable = biasTables (store st1) (currentBiases st1)
                             in calls @ [(epoch, avgError, displayWeights, biasTable,
                                          callback epoch avgError displayWeights biasTable)]))
                 in if jlt avgError (Num (1 / 10000)) then Some (None, st1, calls')
                    else epoch_loop P onProgress (epoch + 1) st1 calls'))
      else Some (None, st, calls))"
  by pat_completeness auto
termination
  by (relation "measure (\<lambda>(P, onProgress, epoch, st, calls). p_epochs P - epoch)") auto

text \<open>The options of \<^verbatim>\<open>trainNetwork\<close>; an option that is not given is \<open>None\<close>.\<close>

record 'r options =
  learningRate :: "jsnum option"
  epochs :: "nat option"
  batchSize :: "nat option"
  l2Factor :: "jsnum option"
  onProgress :: "(nat \<Rightarrow> jsnum \<Rightarrow> Weights \<Rightarrow> jsnum list list \<Rightarrow> 'r) option"

record normalization =
  inputMins :: "jsnum list"
  inputMaxs :: "jsnum list"
  targetMins :: "jsnum list"
  targetMaxs :: "jsnum list"

record TrainingResult =
  r_weights :: Weights
  r_displayWeights :: Weights
  r_biases :: "jsnum list list"
  r_error :: jsnum
  r_normalization :: normalization

text \<open>
  \<^verbatim>\<open>trainNetwork\<close>, called with the references \<^verbatim>\<open>weights\<close> and \<^verbatim>\<open>biases\<close> in the store \<open>s\<close>.
  The two calls of \<^verbatim>\<open>JSON.parse(JSON.stringify(...))\<close> create the tables that
  \<^verbatim>\<open>currentWeights\<close> and \<^verbatim>\<open>currentBiases\<close> refer to. The result is \<open>None\<close> when the call does
  not return; otherwise it holds the value returned or the exception thrown, the state at
  that moment, and the calls of \<^verbatim>\<open>onProgress\<close>. The tables of the value returned are
  those that the references \<^verbatim>\<open>currentWeights\<close> and \<^verbatim>\<open>currentBiases\<close> designate at the return.
\<close>

definition trainNetwork ::
  "NeuronLayer list \<Rightarrow> addr \<Rightarrow> addr \<Rightarrow> sample list \<Rightarrow> 'r options
     \<Rightarrow> (nat \<Rightarrow> sample list \<Rightarrow> sample list) \<Rightarrow> object_store
     \<Rightarrow> ((error + TrainingResult) \<times> train_state \<times> 'r progress_call list) option" where
  "trainNetwork layers weights biases trainingData opts shuffle s =
     (let lr = (case learningRate opts of None \<Rightarrow> Num (1 / 100) | Some x \<Rightarrow> x);
          eps = (case epochs opts of None \<Rightarrow> 200 | Some n \<Rightarrow> n);
          bs = (case batchSize opts of None \<Rightarrow> 32 | Some n \<Rightarrow> n);
          l2 = (case l2Factor opts of None \<Rightarrow> Num (5 / 100000) | Some x \<Rightarrow> x);
          copiedWeights = newWeights (json_copy_weights (weightTables s weights)) s;
          copiedBiases =
            newBiases (json_copy_biases (biasTables (snd copiedWeights) biases)) (snd copiedWeights);
          st0 = \<lparr>store = snd copiedBiases,
                 currentWeights = fst copiedWeights,
                 currentBiases = fst copiedBiases,
                 weightVelocities =
                   map (\<lambda>(key, vals). (key, replicate (length vals) (Num 0)))
                     (weightTables (snd copiedBiases) weights),
                 biasVelocities =
                   map (\<lambda>layer. replicate (length layer) (Num 0))
                     (biasTables (snd copiedBiases) biases),
                 totalError = Num 0\<rparr>
      in case findBounds (map input trainingData) of
           Inl e \<Rightarrow> Some (Inl e, st0, [])
         | Inr (inMins, inMaxs) \<Rightarrow>
             (case findBounds (map target trainingData) of
                Inl e \<Rightarrow> Some (Inl e, st0, [])
              | Inr (tgMins, tgMaxs) \<Rightarrow>
                  (let normalizedData =
                         map (\<lambda>d. \<lparr>input = normalizePoint (input d) inMins inMaxs,
                                   target = normalizePoint (target d) tgMins tgMaxs\<rparr>) trainingData;
                       P = \<lparr>p_layers = layers, p_biases = biases,
                            p_learningRate = lr, p_epochs = eps,
                            p_batchSize = bs, p_l2Factor = l2,
                            p_normalizedData = normalizedData, p_shuffle = shuffle\<rparr>
                   in case epoch_loop P (onProgress opts) 0 st0 [] of
                        None \<Rightarrow> None
                      | Some (Some e, st, calls) \<Rightarrow> Some (Inl e, st, calls)
                      | Some (None, st, calls) \<Rightarrow>
                          Some (Inr \<lparr>r_weights = weightTables (store st) (currentWeights st),
                                     r_displayWeights =
                                       formatWeightsForDisplay
                                         (weightTables (store st) (currentWeights st)),
                                     r_biases = biasTables (store st) (currentBiases st),
                                     r_error = jdiv (totalError st)
                                                 (Num (real (length normalizedData))),
                                     r_normalization =
                                       \<lparr>inputMins = inMins, inputMaxs = inMaxs,
                                        targetMins = tgMins, targetMaxs = tgMaxs\<rparr>\<rparr>,
                                st, calls))))"

declare epoch_loop.simps [simp del]

section \<open>Dataset generation\<close>

text \<open>
  \<^verbatim>\<open>Math.random\<close> is a source of numbers: \<open>rnd i\<close> is the number that its call number \<open>i\<close>
  returns, and every function that draws numbers takes the count of the calls made so far
  and returns the new count.
\<close>

datatype DatasetType = Random | Circle | Xor | Spiral | Gaussian

fun jlog :: "jsnum \<Rightarrow> jsnum" where
  "jlog (Num a) = (if a < 0 then NaN else if a = 0 then NInf else Num (ln a))"
| "jlog PInf = PInf"
| "jlog x = NaN"

text \<open>\<^verbatim>\<open>Math.pow(x, y)\<close> for a finite base and a positive exponent that is not an integer.\<close>

definition jpow :: "real \<Rightarrow> real \<Rightarrow> jsnum" where
  "jpow x y = (if x < 0 then NaN else Num (x powr y))"

definition randUniform :: "(nat \<Rightarrow> real) \<Rightarrow> nat \<Rightarrow> real \<Rightarrow> real \<Rightarrow> real" where
  "randUniform rnd n a b = rnd n * (b - a) + a"

text \<open>
  The loop \<^verbatim>\<open>do { ... } while (s > 1)\<close> of \<^verbatim>\<open>normalRandom\<close>: it draws two numbers in every
  round and returns \<open>v1\<close>, \<open>s\<close> and the new count. It does not return (\<open>None\<close>) when
  every round is rejected.
\<close>

partial_function (option) normalRandom_loop :: "(nat \<Rightarrow> real) \<Rightarrow> nat \<Rightarrow> (real \<times> real \<times> nat) option" where
  "normalRandom_loop rnd n =
     (let v1 = 2 * rnd n - 1;
          v2 = 2 * rnd (n + 1) - 1;
          s = v1 * v1 + v2 * v2
      in if 1 < s then normalRandom_loop rnd (n + 2) else Some (v1, s, n + 2))"

definition normalRandom :: "(nat \<Rightarrow> real) \<Rightarrow> nat \<Rightarrow> jsnum \<Rightarrow> jsnum \<Rightarrow> (jsnum \<times> nat) option" where
  "normalRandom rnd n mean variance =
     (case normalRandom_loop rnd n of
        None \<Rightarrow> None
      | Some (v1, s, n') \<Rightarrow>
          (let result = jmul (jsqrt (jdiv (jmul (Num (- 2)) (jlog (Num s))) (Num s))) (Num v1)
           in Some (jadd mean (jmul (jsqrt variance) result), n')))"

definition centers :: "(real \<times> real) list" where
  "centers = [(- 1 / 2, - 1 / 2), (1 / 2, - 1 / 2), (- 1 / 2, 1 / 2), (1 / 2, 1 / 2)]"

text \<open>
  \<^verbatim>\<open>generateRandomInput(size, datasetType, noise = 0.1)\<close>; the noise is \<open>None\<close> when the
  argument is not given. The destructuring \<^verbatim>\<open>[cx, cy] = centers[cluster]\<close> throws when the
  index is outside the array, which a number of \<^verbatim>\<open>Math.random\<close> in \<open>[0, 1)\<close> excludes.
\<close>

definition generateRandomInput ::
  "(nat \<Rightarrow> real) \<Rightarrow> nat \<Rightarrow> jsnum \<Rightarrow> DatasetType \<Rightarrow> jsnum option
     \<Rightarrow> (error + jsnum list \<times> nat) option" where
  "generateRandomInput rnd n size' datasetType noiseArg =
     (let noise = (case noiseArg of None \<Rightarrow> Num (1 / 10) | Some x \<Rightarrow> x) in
      case datasetType of
        Circle \<Rightarrow>
          (let radius = Num 1;
               t = jpow (rnd n) (7 / 10);
               r = jmul radius t;
               angle = rnd (n + 1) * 2 * pi;
               radialNoise = jmul (jmul (Num (rnd (n + 2) * 2 - 1)) noise) (Num (3 / 100))
           in Some (Inr ([jadd (jmul r (Num (cos angle))) (jmul radialNoise (Num (cos angle))),
                          jadd (jmul r (Num (sin angle))) (jmul radialNoise (Num (sin angle)))],
                         n + 3)))
      | Gaussian \<Rightarrow>
          (let variance = jadd (Num (2 / 10)) (jmul noise (Num (3 / 10)));
               cluster = \<lfloor>rnd n * 4\<rfloor>
           in if 0 \<le> cluster \<and> cluster < 4 then
                (case centers ! nat cluster of
                   (cx, cy) \<Rightarrow>
                     (case normalRandom rnd (n + 1) (Num cx) variance of
                        None \<Rightarrow> None
                      | Some (x, n1) \<Rightarrow>
                          (case normalRandom rnd n1 (Num cy) variance of
                             None \<Rightarrow> None
                           | Some (y, n2) \<Rightarrow> Some (Inr ([x, y], n2)))))
              else Some (Inl TypeError))
      | Spiral \<Rightarrow>
          (let i = real_of_int \<lfloor>rnd n * 100\<rfloor>;
               r = i / 100;
               direction = (if rnd (n + 1) < 1 / 2 then 0 else pi);
               t = 175 / 100 * i / 100 * 2 * pi + direction
           in Some (Inr ([jadd (Num (r * sin t))
                            (jmul (Num (randUniform rnd (n + 2) (- (1 / 10)) (1 / 10))) noise),
                          jadd (Num (r * cos t))
                            (jmul (Num (randUniform rnd (n + 3) (- (1 / 10)) (1 / 10))) noise)],
                         n + 4)))
      | Xor \<Rightarrow>
          (let padding = 1 / 10;
               x0 = randUniform rnd n (- 1) 1;
               x = x0 + (if 0 < x0 then padding else - padding);
               y0 = randUniform rnd (n + 1) (- 1) 1;
               y = y0 + (if 0 < y0 then padding else - padding);
               noiseX = jmul (Num (randUniform rnd (n + 2) (- (2 / 10)) (2 / 10))) noise;
               noiseY = jmul (Num (randUniform rnd (n + 3) (- (2 / 10)) (2 / 10))) noise
           in Some (Inr ([jadd (Num x) noiseX, jadd (Num y) noiseY], n + 4)))
      | Random \<Rightarrow>
          (let radius = 1 in
           Some (Inr ([Num (randUniform rnd n (- radius) radius),
                       Num (randUniform rnd (n + 1) (- radius) radius)], n + 2))))"

text \<open>
  \<^verbatim>\<open>generateDataset(sampleSize, datasetType, noise = 0.1)\<close>: the callback of \<^verbatim>\<open>map\<close> runs
  \<^verbatim>\<open>sampleSize\<close> times, in order, and calls \<^verbatim>\<open>generateRandomInput(2, datasetType, noise)\<close>.
\<close>

fun generateDataset_loop ::
  "(nat \<Rightarrow> real) \<Rightarrow> DatasetType \<Rightarrow> jsnum \<Rightarrow> nat \<Rightarrow> nat \<Rightarrow> (error + jsnum list list \<times> nat) option" where
  "generateDataset_loop rnd datasetType noise 0 n = Some (Inr ([], n))"
| "generateDataset_loop rnd datasetType noise (Suc k) n =
     (case generateRandomInput rnd n (Num 2) datasetType (Some noise) of
        None \<Rightarrow> None
      | Some (Inl e) \<Rightarrow> Some (Inl e)
      | Some (Inr (p, n1)) \<Rightarrow>
          (case generateDataset_loop rnd datasetType noise k n1 of
             None \<Rightarrow> None
           | Some (Inl e) \<Rightarrow> Some (Inl e)
           | Some (Inr (ps, n2)) \<Rightarrow> Some (Inr (p # ps, n2))))"

definition generateDataset ::
  "(nat \<Rightarrow> real) \<Rightarrow> nat \<Rightarrow> nat \<Rightarrow> DatasetType \<Rightarrow> jsnum option
     \<Rightarrow> (error + jsnum list list \<times> nat) option" where
  "generateDataset rnd n sampleSize datasetType noiseArg =
     (let noise = (case noiseArg of None \<Rightarrow> Num (1 / 10) | Some x \<Rightarrow> x) in
      generateDataset_loop rnd datasetType noise sampleSize n)"

section \<open>Predicates used in the statements\<close>

text \<open>
  The layer pair \<open>(i, i + 1)\<close> has an entry that the evaluation reads and that is missing:
  the destination layer has a neuron and the bias table has no row \<open>i + 1\<close>, or both
  layers have a neuron and the weight table has no entry for the pair.
\<close>

definition missing_entry :: "NeuronLayer list \<Rightarrow> Weights \<Rightarrow> jsnum list list \<Rightarrow> nat \<Rightarrow> bool" where
  "missing_entry layers weights biases i =
     (0 < num_neurons (layers ! (i + 1)) \<and>
      (length biases \<le> i + 1 \<or>
       (0 < num_neurons (layers ! i) \<and> map_of weights (layerKey i) = None)))"

text \<open>
  Tables of matching shape: one bias row per layer, of the length of the layer, and for
  every adjacent pair a weight entry of length \<open>neurons[i] * neurons[i + 1]\<close>.
\<close>

definition matching_shape :: "NeuronLayer list \<Rightarrow> Weights \<Rightarrow> jsnum list list \<Rightarrow> bool" where
  "matching_shape layers weights biases =
     (length biases = length layers \<and>
      list_all (\<lambda>i. length (biases ! i) = num_neurons (layers ! i)) [0..<length layers] \<and>
      list_all (\<lambda>i. case map_of weights (layerKey i) of
                      None \<Rightarrow> False
                    | Some ws \<Rightarrow> length ws = num_neurons (layers ! i) * num_neurons (layers ! (i + 1)))
        [0..<length layers - 1])"

definition in_unit_range :: "jsnum \<Rightarrow> bool" where
  "in_unit_range x = (case x of Num a \<Rightarrow> - 1 \<le> a \<and> a \<le> 1 | _ \<Rightarrow> False)"

text \<open>
  The number that \<^verbatim>\<open>forward\<close> returns for a neighbour at output dimension \<open>i\<close>, and one
  summand of the geometric gradient, as the specification writes it.
\<close>

definition neighbor_output :: "NeuronLayer list \<Rightarrow> Weights \<Rightarrow> jsnum list list \<Rightarrow> nat \<Rightarrow> sample \<Rightarrow> real" where
  "neighbor_output layers weights biases i neighbor =
     (case forward (input neighbor) layers weights biases of
        Inr out \<Rightarrow> real_of (nth_num out i)
      | Inl e \<Rightarrow> 0)"

definition geo_term :: "real \<Rightarrow> real \<Rightarrow> real \<Rightarrow> real \<Rightarrow> real" where
  "geo_term o_i t_i n_out n_target = 2 * sgn (o_i - n_out) * (\<bar>o_i - n_out\<bar> - \<bar>t_i - n_target\<bar>)"

text \<open>The Euclidean norm of a vector of finite numbers.\<close>

definition l2_norm :: "jsnum list \<Rightarrow> real" where
  "l2_norm gs = sqrt (\<Sum>g\<leftarrow>gs. (real_of g)\<^sup>2)"

text \<open>
  The largest finite number, \<^verbatim>\<open>Number.MAX_VALUE\<close>. A sum of squares of at most half of it
  is a finite number also after the rounding of every square and of every partial sum.
\<close>

definition max_value :: real where
  "max_value = (2 - 1 / 2 ^ 52) * 2 ^ 1023"

text \<open>
  The norm of a vector as \<^verbatim>\<open>clipGradients\<close> computes it, for vectors of any numbers, and the
  comparison \<^verbatim>\<open><=\<close>.
\<close>

definition computed_norm :: "jsnum list \<Rightarrow> jsnum" where
  "computed_norm gs = jsqrt (foldl (\<lambda>sum g. jadd sum (jmul g g)) (Num 0) gs)"

definition jle :: "jsnum \<Rightarrow> jsnum \<Rightarrow> bool" where
  "jle x y = (jlt x y \<or> jeq x y)"

text \<open>
  A call of \<^verbatim>\<open>onProgress\<close> without the value it returned, its epoch and its mean error; and
  the outcome of a run with the returned values left out of its calls.
\<close>

definition call_args :: "'r progress_call \<Rightarrow> nat \<times> jsnum \<times> Weights \<times> jsnum list list" where
  "call_args c = (case c of (epoch, err, w, b, r) \<Rightarrow> (epoch, err, w, b))"

definition call_epoch :: "'r progress_call \<Rightarrow> nat" where
  "call_epoch c = fst c"

definition call_error :: "'r progress_call \<Rightarrow> jsnum" where
  "call_error c = fst (snd c)"

definition run_outcome ::
  "((error + TrainingResult) \<times> train_state \<times> 'r progress_call list) option
     \<Rightarrow> ((error + TrainingResult) \<times> train_state \<times> (nat \<times> jsnum \<times> Weights \<times> jsnum list list) list) option" where
  "run_outcome r = map_option (\<lambda>(res, st, calls). (res, st, map call_args calls)) r"

text \<open>
  A source of random numbers as \<^verbatim>\<open>Math.random\<close> specifies it: every number is in
  \<open>[0, 1)\<close>. A round of \<^verbatim>\<open>normalRandom\<close> that starts at the call \<open>i\<close> is accepted when its
  point lies in the unit disc; the rejection loop returns from every start when, from
  every start, some round is accepted.
\<close>

definition unit_interval :: "(nat \<Rightarrow> real) \<Rightarrow> bool" where
  "unit_interval rnd = (\<forall>i. 0 \<le> rnd i \<and> rnd i < 1)"

definition accepted :: "(nat \<Rightarrow> real) \<Rightarrow> nat \<Rightarrow> bool" where
  "accepted rnd i = ((2 * rnd i - 1) * (2 * rnd i - 1) + (2 * rnd (i + 1) - 1) * (2 * rnd (i + 1) - 1) \<le> 1)"

definition eventually_accepted :: "(nat \<Rightarrow> real) \<Rightarrow> bool" where
  "eventually_accepted rnd = (\<forall>i. \<exists>k. accepted rnd (i + 2 * k))"

text \<open>
  A store that holds one weight table and one bias table, both at the reference \<open>0\<close>.
\<close>

definition caller_store :: "Weights \<Rightarrow> jsnum list list \<Rightarrow> object_store" where
  "caller_store weights biases =
     \<lparr>weightTables = (\<lambda>a. [])(0 := weights), biasTables = (\<lambda>a. [])(0 := biases),
      nextWeights = 1, nextBiases = 1\<rparr>"

text \<open>
  The state \<open>st\<close> of a run keeps the tables of the store \<open>s\<close>: every table that exists in
  \<open>s\<close> is the same in the store of \<open>st\<close>, and the tables that \<^verbatim>\<open>currentWeights\<close> and
  \<^verbatim>\<open>currentBiases\<close> refer to are not among them.
\<close>

definition keeps_tables :: "object_store \<Rightarrow> train_state \<Rightarrow> bool" where
  "keeps_tables s st =
     ((\<forall>a<nextWeights s. weightTables (store st) a = weightTables s a) \<and>
      (\<forall>a<nextBiases s. biasTables (store st) a = biasTables s a) \<and>
      nextWeights s \<le> currentWeights st \<and> nextBiases s \<le> currentBiases st \<and>
      nextBiases s \<le> nextBiases (store st))"

section \<open>Properties of the normalisation\<close>

lemma jeq_Num [simp]: "jeq (Num a) (Num b) = (a = b)"
  by (simp add: jeq_def)

lemma jsub_Num [simp]: "jsub (Num a) (Num b) = Num (a - b)"
  by (simp add: jsub_def)

lemma jsub_zero_iff: "jeq (jsub x y) (Num 0) = (\<exists>a. x = Num a \<and> y = Num a)"
  by (cases x; cases y) (auto simp: jsub_def jeq_def)

text \<open>
  C1. The round trip \<^verbatim>\<open>denormalizePoint(normalizePoint(p, mins, maxs), mins, maxs)\<close>
  does not return \<open>p\<close>: for the point \<open>(0, 1)\<close> under the bounds \<open>[0, 1]\<close> on both
  dimensions it returns \<open>(1/2, 1)\<close>. \<^verbatim>\<open>normalizePoint\<close> maps a coordinate into \<open>[0, 1]\<close>,
  \<^verbatim>\<open>denormalizePoint\<close> inverts a map into \<open>[-1, 1]\<close>.
\<close>

theorem normalize_roundtrip_fails:
  "denormalizePoint (normalizePoint [Num 0, Num 1] [Num 0, Num 0] [Num 1, Num 1])
      [Num 0, Num 0] [Num 1, Num 1] = [Num (1 / 2), Num 1]
   \<and> normalizePoint [Num 0, Num 1] [Num 0, Num 0] [Num 1, Num 1] = [Num 0, Num 1]"
  by (simp add: denormalizePoint_def normalizePoint_def normalizeCoord_def
      denormalizeCoord_def nth_num_def enumerate_eq_zip upt_rec Let_def)

text \<open>
  C4, as the specification states it, fails: on a dimension with \<open>max = min = 3\<close>,
  \<^verbatim>\<open>denormalizePoint\<close> returns \<open>3\<close>, not zero.
\<close>

theorem denormalize_degenerate_counterexample:
  "denormalizePoint [Num 7] [Num 3] [Num 3] \<noteq> [Num 0]"
  by (simp add: denormalizePoint_def denormalizeCoord_def nth_num_def enumerate_eq_zip upt_rec
      Let_def)

text \<open>
  C4, amended. On a dimension \<open>i\<close> of the point whose bounds are degenerate
  (\<^verbatim>\<open>maxs[i] - mins[i] === 0\<close>), \<^verbatim>\<open>normalizePoint\<close> returns zero and \<^verbatim>\<open>denormalizePoint\<close>
  returns \<^verbatim>\<open>mins[i]\<close>; and for all arguments no division that either function evaluates
  has the divisor zero.
\<close>

theorem degenerate_range:
  "(i < length point \<and> jeq (jsub (nth_num maxs i) (nth_num mins i)) (Num 0) \<longrightarrow>
      normalizePoint point mins maxs ! i = Num 0 \<and>
      denormalizePoint point mins maxs ! i = nth_num mins i) \<and>
   Num 0 \<notin> set (normalizePoint_divisors point mins maxs) \<and>
   Num 0 \<notin> set (denormalizePoint_divisors point mins maxs)"
proof -
  have a: "i < length point \<and> jeq (jsub (nth_num maxs i) (nth_num mins i)) (Num 0) \<longrightarrow>
      normalizePoint point mins maxs ! i = Num 0 \<and>
      denormalizePoint point mins maxs ! i = nth_num mins i"
    by (simp add: normalizePoint_def denormalizePoint_def nth_enumerate_eq
        normalizeCoord_def denormalizeCoord_def Let_def)
  have b: "Num 0 \<notin> set (normalizePoint_divisors point mins maxs)"
    by (auto simp: normalizePoint_divisors_def normalizeCoord_def Let_def jeq_def
        split: if_splits)
  have c: "Num 0 \<notin> set (denormalizePoint_divisors point mins maxs)"
    by (auto simp: denormalizePoint_divisors_def denormalizeCoord_def Let_def
        split: if_splits)
  from a b c show ?thesis by blast
qed

theorem degenerate_range_witness:
  "normalizePoint [Num 7, Num 4] [Num 3, Num 0] [Num 3, Num 8] ! 0 = Num 0 \<and>
   denormalizePoint [Num 7, Num 4] [Num 3, Num 0] [Num 3, Num 8] ! 0 = Num 3"
  using degenerate_range [of 0 "[Num 7, Num 4]" "[Num 3, Num 8]" "[Num 3, Num 0]"]
  by (simp add: nth_num_def)

section \<open>Configuration mismatches\<close>

lemma isl_TypeError: "isl r = (r = Inl TypeError)"
  by (cases r) (auto intro: error.exhaust)

lemma map_err_isl: "isl (map_err f xs) = (\<exists>x\<in>set xs. isl (f x))"
  by (induction xs) (auto split: sum.splits)

lemma map_err_Inr: "map_err f xs = Inr ys \<Longrightarrow> length ys = length xs \<and> (\<forall>k<length xs. f (xs ! k) = Inr (ys ! k))"
  by (induction xs arbitrary: ys) (auto split: sum.splits simp: nth_Cons')

lemma weighted_sum_isl: "isl (weighted_sum lw n cur j ks acc) = (ks \<noteq> [] \<and> lw = None)"
  by (induction ks arbitrary: acc) (auto split: option.splits)

lemma neuron_input_isl: "isl (neuron_input biases lw i cs ns cur j) = (length biases \<le> i + 1 \<or> (0 < cs \<and> lw = None))"
  by (auto simp: neuron_input_def weighted_sum_isl)

lemma forward_layer_isl: "isl (forward_layer layers weights biases i cur) = missing_entry layers weights biases i"
proof -
  have "isl (case r of Inl e \<Rightarrow> Inl e | Inr z \<Rightarrow> Inr (g z)) = isl r" for r :: "error + jsnum" and g :: "jsnum \<Rightarrow> jsnum"
    by (cases r) auto
  then show ?thesis
    by (auto simp: forward_layer_def Let_def map_err_isl neuron_input_isl missing_entry_def)
qed

lemma forward_loop_isl: "isl (forward_loop layers weights biases is cur) = (\<exists>i\<in>set is. missing_entry layers weights biases i)"
proof (induction "is" arbitrary: cur)
  case Nil
  then show ?case by simp
next
  case (Cons i "is")
  show ?case
  proof (cases "forward_layer layers weights biases i cur")
    case (Inl e)
    then have "missing_entry layers weights biases i" using forward_layer_isl[of layers weights biases i cur] by simp
    with Inl show ?thesis by simp
  next
    case (Inr nxt)
    then have "\<not> missing_entry layers weights biases i" using forward_layer_isl[of layers weights biases i cur] by simp
    with Inr Cons.IH[of nxt] show ?thesis by simp
  qed
qed

lemma forward_isl: "isl (forward inp layers weights biases) = (\<exists>i<length layers - 1. missing_entry layers weights biases i)"
  by (auto simp: forward_def forward_loop_isl)


lemma backprop_layer_isl: "isl (backprop_layer layers weights biases i cur) = missing_entry layers weights biases i"
  by (auto simp: backprop_layer_def Let_def map_err_isl neuron_input_isl missing_entry_def)

lemma backprop_forward_loop_isl:
  "isl (backprop_forward_loop layers weights biases is cur acts zs) = (\<exists>i\<in>set is. missing_entry layers weights biases i)"
proof (induction "is" arbitrary: cur acts zs)
  case Nil
  then show ?case by simp
next
  case (Cons i "is")
  show ?case
  proof (cases "backprop_layer layers weights biases i cur")
    case (Inl e)
    then have "missing_entry layers weights biases i" using backprop_layer_isl[of layers weights biases i cur] by simp
    with Inl show ?thesis by simp
  next
    case (Inr z)
    then have "\<not> missing_entry layers weights biases i" using backprop_layer_isl[of layers weights biases i cur] by simp
    with Inr Cons.IH show ?thesis by (simp add: Let_def)
  qed
qed

lemma geoGrad_loop_isl:
  "isl (geoGrad_loop layers weights biases tgt i out ns acc) =
     (ns \<noteq> [] \<and> (\<exists>i<length layers - 1. missing_entry layers weights biases i))"
proof (induction ns arbitrary: acc)
  case Nil
  then show ?case by simp
next
  case (Cons n ns)
  show ?case
  proof (cases "forward (input n) layers weights biases")
    case (Inl e)
    then show ?thesis using forward_isl[of "input n" layers weights biases] by simp
  next
    case (Inr a)
    then show ?thesis using forward_isl[of "input n" layers weights biases] Cons.IH
      by (auto simp: Let_def)
  qed
qed

lemma isl_case_Inr: "isl (case r of Inl e \<Rightarrow> Inl e | Inr z \<Rightarrow> Inr (g z)) = isl r"
  by (cases r) auto

lemma output_delta_isl:
  "isl (output_delta layers weights biases tgt neighbors outputs) =
     (outputs \<noteq> [] \<and> neighbors \<noteq> [] \<and> (\<exists>i<length layers - 1. missing_entry layers weights biases i))"
proof -
  have "isl (case x of (i, out) \<Rightarrow>
          (let mseGrad = jsub out (nth_num tgt i) in
           case geoGrad_loop layers weights biases tgt i out neighbors (Num 0) of
             Inl e \<Rightarrow> Inl e
           | Inr geoGrad \<Rightarrow> Inr (jadd mseGrad (jmul (Num (1 / 10)) geoGrad)))) =
        (neighbors \<noteq> [] \<and> (\<exists>i<length layers - 1. missing_entry layers weights biases i))"
    for x :: "nat \<times> jsnum"
    by (cases x) (simp add: Let_def isl_case_Inr geoGrad_loop_isl)
  then have "isl (output_delta layers weights biases tgt neighbors outputs) =
        (\<exists>x\<in>set (enumerate 0 outputs).
           neighbors \<noteq> [] \<and> (\<exists>i<length layers - 1. missing_entry layers weights biases i))"
    unfolding output_delta_def map_err_isl by simp
  also have "\<dots> = (enumerate 0 outputs \<noteq> [] \<and>
           neighbors \<noteq> [] \<and> (\<exists>i<length layers - 1. missing_entry layers weights biases i))"
    by (cases "enumerate 0 outputs") auto
  also have "(enumerate 0 outputs \<noteq> []) = (outputs \<noteq> [])"
    by (cases outputs) simp_all
  finally show ?thesis .
qed

lemma delta_sum_isl: "isl (delta_sum lw n delta i js acc) = (js \<noteq> [] \<and> lw = None)"
  by (induction js arbitrary: acc) (auto split: option.splits)

lemma backward_loop_isl:
  "isl (backward_loop layers weights activations zs ls delta g) \<Longrightarrow>
     \<exists>l\<in>set ls. 0 < num_neurons (layers ! l) \<and> 0 < num_neurons (layers ! (l + 1)) \<and>
        map_of weights (layerKey l) = None"
proof (induction ls arbitrary: delta g)
  case Nil
  then show ?case by simp
next
  case (Cons l ls)
  let ?m = "map_err
                   (\<lambda>i. case delta_sum (map_of weights (layerKey l)) (num_neurons (layers ! (l + 1))) delta i
                                [0..<num_neurons (layers ! (l + 1))] (Num 0) of
                          Inl e \<Rightarrow> Inl e
                        | Inr s \<Rightarrow> Inr (jmul s (derivative (getActivationFunction (activation_function (layers ! l))) (nth_num (zs ! (l - 1)) i))))
                   [0..<num_neurons (layers ! l)]"
  show ?case
  proof (cases "0 < l \<and> isl ?m")
    case True
    then have "0 < num_neurons (layers ! l) \<and> 0 < num_neurons (layers ! (l + 1)) \<and>
        map_of weights (layerKey l) = None"
      by (auto simp: map_err_isl isl_case_Inr delta_sum_isl)
    then show ?thesis by simp
  next
    case False
    with Cons.prems(1) have "\<exists>d g'. isl (backward_loop layers weights activations zs ls d g')"
      by (auto simp: Let_def split: if_splits sum.splits)
    with Cons.IH show ?thesis by auto
  qed
qed

lemma backpropagate_isl:
  "isl (backpropagate inp tgt neighbors layers weights biases) =
     (\<exists>i<length layers - 1. missing_entry layers weights biases i)"
proof
  assume a: "isl (backpropagate inp tgt neighbors layers weights biases)"
  show "\<exists>i<length layers - 1. missing_entry layers weights biases i"
  proof (rule ccontr)
    assume n: "\<not> (\<exists>i<length layers - 1. missing_entry layers weights biases i)"
    then have "\<not> isl (backprop_forward_loop layers weights biases [0..<length layers - 1] inp [inp] [])"
      by (auto simp: backprop_forward_loop_isl)
    then obtain acts zs where f: "backprop_forward_loop layers weights biases [0..<length layers - 1] inp [inp] [] = Inr (acts, zs)"
      by (cases "backprop_forward_loop layers weights biases [0..<length layers - 1] inp [inp] []") auto
    from n have "\<not> isl (output_delta layers weights biases tgt neighbors (last acts))"
      by (simp add: output_delta_isl)
    then obtain delta where d: "output_delta layers weights biases tgt neighbors (last acts) = Inr delta"
      by (cases "output_delta layers weights biases tgt neighbors (last acts)") auto
    from a f d have "isl (backward_loop layers weights acts zs (rev [0..<length layers - 1]) delta
                 \<lparr>weightGradients = [],
                  biasGradients = map (\<lambda>layer. replicate (num_neurons layer) (Num 0)) layers\<rparr>)"
      by (simp add: backpropagate_def)
    from backward_loop_isl[OF this] obtain l where "l < length layers - 1"
      "0 < num_neurons (layers ! l)" "0 < num_neurons (layers ! (l + 1))" "map_of weights (layerKey l) = None"
      by auto
    then have "missing_entry layers weights biases l" by (simp add: missing_entry_def)
    with n \<open>l < length layers - 1\<close> show False by blast
  qed
next
  assume "\<exists>i<length layers - 1. missing_entry layers weights biases i"
  then have "isl (backprop_forward_loop layers weights biases [0..<length layers - 1] inp [inp] [])"
    by (auto simp: backprop_forward_loop_isl)
  then show "isl (backpropagate inp tgt neighbors layers weights biases)"
    by (cases "backprop_forward_loop layers weights biases [0..<length layers - 1] inp [inp] []")
       (auto simp: backpropagate_def)
qed


text \<open>
  C2, as the specification states it, fails. A weight entry of length 2 where
  \<open>neurons[0] * neurons[1] = 1\<close> halts neither function: both return a result computed
  from the first number of the entry. A bias row that is too short does not halt
  \<^verbatim>\<open>forward\<close> either: the missing bias is read as \<^verbatim>\<open>undefined\<close> and the output is \<^verbatim>\<open>NaN\<close>.
\<close>

theorem wrong_length_does_not_halt:
  "forward [Num (1 / 2)]
     [\<lparr>num_neurons = 1, activation_function = Some ''linear''\<rparr>,
      \<lparr>num_neurons = 1, activation_function = None\<rparr>]
     [(layerKey 0, [Num 1, Num 2])] [[Num 0], [Num 0]] = Inr [Num (1 / 2)]
   \<and> backpropagate [Num (1 / 2)] [Num 0] []
     [\<lparr>num_neurons = 1, activation_function = Some ''linear''\<rparr>,
      \<lparr>num_neurons = 1, activation_function = None\<rparr>]
     [(layerKey 0, [Num 1, Num 2])] [[Num 0], [Num 0]]
     = Inr \<lparr>weightGradients = [(layerKey 0, [Num (1 / 4)])],
            biasGradients = [[Num 0], [Num (1 / 2)]]\<rparr>
   \<and> forward [Num (1 / 2)]
     [\<lparr>num_neurons = 1, activation_function = Some ''linear''\<rparr>,
      \<lparr>num_neurons = 1, activation_function = None\<rparr>]
     [(layerKey 0, [Num 1])] [[Num 0], []] = Inr [NaN]"
  by (simp add: forward_def forward_layer_def backpropagate_def backprop_layer_def
      output_delta_def neuron_input_def Let_def getActivationFunction_def linear'_def
      ensureBounds_def jmax_def jmin_def nth_num_def enumerate_eq_zip)

text \<open>
  C2, amended. \<^verbatim>\<open>forward\<close> and \<^verbatim>\<open>backpropagate\<close> halt with a \<^verbatim>\<open>TypeError\<close> exactly when
  some traversed layer pair has a missing entry that is read: no bias row for a
  destination layer that has a neuron, or no weight entry for a pair whose two layers
  have a neuron. The length of an entry plays no part: numbers beyond the expected
  length are ignored and numbers that are not there are read as \<^verbatim>\<open>undefined\<close>.
\<close>

theorem halt_iff_missing_entry:
  "(forward inp layers weights biases = Inl TypeError) =
     (\<exists>i<length layers - 1. missing_entry layers weights biases i) \<and>
   (backpropagate inp tgt neighbors layers weights biases = Inl TypeError) =
     (\<exists>i<length layers - 1. missing_entry layers weights biases i)"
  using forward_isl [of inp layers weights biases]
    backpropagate_isl [of inp tgt neighbors layers weights biases]
  by (simp add: isl_TypeError)

section \<open>The clamping of the output\<close>

lemma finite_num_iff: "finite_num x = (\<exists>a. x = Num a)"
  by (cases x) auto

text \<open>The clamp maps every value but \<^verbatim>\<open>NaN\<close> into \<open>[-1, 1]\<close>, the infinities too.\<close>

lemma ensureBounds_range:
  "ensureBounds x (Num (- 1)) (Num 1) = NaN \<or> in_unit_range (ensureBounds x (Num (- 1)) (Num 1))"
  by (cases x) (auto simp: ensureBounds_def jmax_def jmin_def in_unit_range_def)

lemma weighted_sum_returns: "\<exists>z. weighted_sum (Some ws) n cur j ks acc = Inr z"
  by (induction ks arbitrary: acc) auto

lemma map_err_all_Inr:
  "\<forall>x\<in>set xs. \<exists>y. f x = Inr y \<and> P y \<Longrightarrow>
     \<exists>ys. map_err f xs = Inr ys \<and> length ys = length xs \<and> list_all P ys"
proof (induction xs)
  case Nil
  then show ?case by simp
next
  case (Cons x xs)
  then obtain y where "f x = Inr y" "P y" by auto
  moreover from Cons obtain ys where "map_err f xs = Inr ys" "length ys = length xs" "list_all P ys" by auto
  ultimately show ?case by simp
qed

lemma matching_shape_weights:
  assumes "matching_shape layers weights biases" "i + 1 < length layers"
  shows "\<exists>ws. map_of weights (layerKey i) = Some ws \<and>
           length ws = num_neurons (layers ! i) * num_neurons (layers ! (i + 1))"
proof -
  from assms(2) have "i \<in> set [0..<length layers - 1]" by simp
  with assms(1) have "case map_of weights (layerKey i) of
                      None \<Rightarrow> False
                    | Some ws \<Rightarrow> length ws = num_neurons (layers ! i) * num_neurons (layers ! (i + 1))"
    unfolding matching_shape_def list_all_iff by blast
  then show ?thesis by (cases "map_of weights (layerKey i)") auto
qed

lemma matching_shape_biases:
  assumes "matching_shape layers weights biases" "i < length layers"
  shows "i < length biases \<and> length (biases ! i) = num_neurons (layers ! i)"
proof -
  from assms(2) have "i \<in> set [0..<length layers]" by simp
  with assms(1) show ?thesis
    unfolding matching_shape_def list_all_iff by auto
qed

lemma forward_layer_returns:
  assumes sh: "matching_shape layers weights biases"
    and i: "i + 1 < length layers"
  shows "\<exists>nxt. forward_layer layers weights biases i cur = Inr nxt \<and>
           length nxt = num_neurons (layers ! (i + 1)) \<and>
           list_all (\<lambda>x. i + 2 = length layers \<longrightarrow> x = NaN \<or> in_unit_range x) nxt"
proof -
  from matching_shape_weights[OF sh i] obtain ws where ws: "map_of weights (layerKey i) = Some ws"
    by blast
  from matching_shape_biases[OF sh, of "i + 1"] i have b: "i + 1 < length biases" by simp
  define F where "F = (\<lambda>j. case neuron_input biases (Some ws) i (num_neurons (layers ! i))
                  (num_neurons (layers ! (i + 1))) cur j of
                  Inl e \<Rightarrow> Inl e
                | Inr z \<Rightarrow>
                    Inr (let a = output' (getActivationFunction (activation_function (layers ! i))) z in
                         if i + 2 = length layers then ensureBounds a (Num (- 1)) (Num 1) else a))"
  define P where "P = (\<lambda>x. i + 2 = length layers \<longrightarrow> x = NaN \<or> in_unit_range x)"
  have "\<exists>y. F j = Inr y \<and> P y" for j
  proof -
    from weighted_sum_returns obtain z where
      "weighted_sum (Some ws) (num_neurons (layers ! (i + 1))) cur j
         [0..<num_neurons (layers ! i)] (nth_num (biases ! (i + 1)) j) = Inr z"
      by blast
    then show ?thesis
      using b ensureBounds_range by (auto simp: F_def P_def neuron_input_def Let_def)
  qed
  then have "\<forall>j\<in>set [0..<num_neurons (layers ! (i + 1))]. \<exists>y. F j = Inr y \<and> P y" by blast
  from map_err_all_Inr[OF this] obtain nxt where
    "map_err F [0..<num_neurons (layers ! (i + 1))] = Inr nxt"
    "length nxt = num_neurons (layers ! (i + 1))" "list_all P nxt"
    by auto
  then show ?thesis
    by (auto simp: forward_layer_def Let_def ws F_def P_def)
qed

lemma forward_loop_returns:
  assumes sh: "matching_shape layers weights biases"
  shows "a + d + 1 = length layers \<Longrightarrow>
         \<exists>out. forward_loop layers weights biases [a..<a + d] cur = Inr out \<and>
           (0 < d \<longrightarrow> length out = num_neurons (layers ! (a + d)) \<and>
                      list_all (\<lambda>x. x = NaN \<or> in_unit_range x) out)"
proof (induction d arbitrary: a cur)
  case 0
  then show ?case by simp
next
  case (Suc d)
  from Suc.prems have i: "a + 1 < length layers" by simp
  from forward_layer_returns[OF sh i, of cur] obtain nxt where
    nxt: "forward_layer layers weights biases a cur = Inr nxt"
      "length nxt = num_neurons (layers ! (a + 1))"
      "list_all (\<lambda>x. a + 2 = length layers \<longrightarrow> x = NaN \<or> in_unit_range x) nxt"
    by blast
  have u: "[a..<a + Suc d] = a # [Suc a..<Suc a + d]" by (simp add: upt_conv_Cons)
  from Suc.IH[of "Suc a" nxt] Suc.prems(1) obtain out where
    out: "forward_loop layers weights biases [Suc a..<Suc a + d] nxt = Inr out"
      "0 < d \<longrightarrow> length out = num_neurons (layers ! (Suc a + d)) \<and>
                 list_all (\<lambda>x. x = NaN \<or> in_unit_range x) out"
    by auto
  show ?case
  proof (cases "d = 0")
    case True
    with Suc.prems(1) have "a + 2 = length layers" by simp
    with nxt True show ?thesis by (simp add: list_all_iff)
  next
    case False
    with out nxt(1) u show ?thesis by simp
  qed
qed

text \<open>
  C3, as the specification states it, fails. With a single layer the loop of \<^verbatim>\<open>forward\<close>
  has no iteration and the input is returned as it is. With two layers a component of the
  result can be \<^verbatim>\<open>NaN\<close>, which is not in \<open>[-1, 1]\<close>: for an input vector that is shorter
  than the input layer, and for the input \<open>(Infinity, -Infinity)\<close>, whose weighted sum is
  \<^verbatim>\<open>Infinity + -Infinity\<close>.
\<close>

theorem forward_unclamped_counterexample:
  "matching_shape [\<lparr>num_neurons = 1, activation_function = Some ''linear''\<rparr>] [] [[Num 0]]
   \<and> forward [Num 5] [\<lparr>num_neurons = 1, activation_function = Some ''linear''\<rparr>] [] [[Num 0]]
       = Inr [Num 5]
   \<and> \<not> in_unit_range (Num 5)
   \<and> matching_shape
       [\<lparr>num_neurons = 2, activation_function = Some ''linear''\<rparr>,
        \<lparr>num_neurons = 1, activation_function = None\<rparr>]
       [(layerKey 0, [Num 1, Num 1])] [[Num 0, Num 0], [Num 0]]
   \<and> forward [Num 1]
       [\<lparr>num_neurons = 2, activation_function = Some ''linear''\<rparr>,
        \<lparr>num_neurons = 1, activation_function = None\<rparr>]
       [(layerKey 0, [Num 1, Num 1])] [[Num 0, Num 0], [Num 0]] = Inr [NaN]
   \<and> forward [PInf, NInf]
       [\<lparr>num_neurons = 2, activation_function = Some ''linear''\<rparr>,
        \<lparr>num_neurons = 1, activation_function = None\<rparr>]
       [(layerKey 0, [Num 1, Num 1])] [[Num 0, Num 0], [Num 0]] = Inr [NaN]
   \<and> \<not> in_unit_range NaN"
  by (simp add: matching_shape_def in_unit_range_def forward_def forward_layer_def
      neuron_input_def Let_def getActivationFunction_def linear'_def ensureBounds_def
      jmax_def jmin_def nth_num_def upt_rec signed_inf_def)

text \<open>
  C3, amended. For every layer sequence of at least two layers, weight and bias tables of
  matching shape and every input vector, \<^verbatim>\<open>forward\<close> returns a vector with one component
  per output neuron, and every component is \<^verbatim>\<open>NaN\<close> or lies in \<open>[-1, 1]\<close>. Nothing is
  assumed of the numbers in the tables and in the input, and nothing of the arithmetic is
  used: whatever value the activation of the last layer has, finite, infinite or \<^verbatim>\<open>NaN\<close>,
  the clamp is the last operation on it.
\<close>

theorem forward_output_in_range:
  assumes "2 \<le> length layers"
    and "matching_shape layers weights biases"
  shows "\<exists>out. forward inp layers weights biases = Inr out \<and>
           length out = num_neurons (last layers) \<and>
           list_all (\<lambda>x. x = NaN \<or> in_unit_range x) out"
proof -
  from assms(1) have ne: "layers \<noteq> []" by auto
  from assms(1) have e: "0 + (length layers - 1) + 1 = length layers" by simp
  from forward_loop_returns[OF assms(2) e, of inp] assms(1) ne
  show ?thesis by (auto simp: forward_def last_conv_nth)
qed

theorem forward_output_in_range_witness:
  "\<exists>out. forward [Num 1]
       [\<lparr>num_neurons = 1, activation_function = Some ''linear''\<rparr>,
        \<lparr>num_neurons = 1, activation_function = None\<rparr>]
       [(layerKey 0, [Num 3])] [[Num 0], [Num 0]] = Inr out \<and>
     length out = 1 \<and> list_all (\<lambda>x. x = NaN \<or> in_unit_range x) out"
  using forward_output_in_range [of
       "[\<lparr>num_neurons = 1, activation_function = Some ''linear''\<rparr>,
         \<lparr>num_neurons = 1, activation_function = None\<rparr>]"
       "[(layerKey 0, [Num 3])]" "[[Num 0], [Num 0]]" "[Num 1]"]
  by (simp add: matching_shape_def)

section \<open>The delta of the output layer\<close>

lemma geoGrad_loop_finite:
  assumes t: "nth_num tgt i = Num t"
  shows "\<forall>n\<in>set ns. \<exists>out a. forward (input n) layers weights biases = Inr out \<and>
            nth_num out i = Num a \<and> finite_num (nth_num (target n) i) \<Longrightarrow>
     geoGrad_loop layers weights biases tgt i (Num oi) ns (Num acc) =
       Inr (Num (acc + (\<Sum>n\<leftarrow>ns. geo_term oi t (neighbor_output layers weights biases i n)
                                   (real_of (nth_num (target n) i)))))"
proof (induction ns arbitrary: acc)
  case Nil
  then show ?case by simp
next
  case (Cons n ns)
  then obtain out a b where n: "forward (input n) layers weights biases = Inr out"
      "nth_num out i = Num a" "nth_num (target n) i = Num b"
    by (auto simp: finite_num_iff)
  have no: "neighbor_output layers weights biases i n = a"
    by (simp add: neighbor_output_def n)
  from Cons.prems have rest: "\<forall>n\<in>set ns. \<exists>out a. forward (input n) layers weights biases = Inr out \<and>
            nth_num out i = Num a \<and> finite_num (nth_num (target n) i)" by simp
  show ?case
    by (simp add: n t no Let_def Cons.IH[OF rest] geo_term_def algebra_simps)
qed

lemma output_delta_nth:
  assumes "output_delta layers weights biases tgt neighbors outs = Inr delta" "i < length outs"
  shows "length delta = length outs \<and>
     (case geoGrad_loop layers weights biases tgt i (outs ! i) neighbors (Num 0) of
             Inl e \<Rightarrow> Inl e
           | Inr geoGrad \<Rightarrow> Inr (jadd (jsub (outs ! i) (nth_num tgt i)) (jmul (Num (1 / 10)) geoGrad)))
      = Inr (delta ! i)"
proof -
  from map_err_Inr[OF assms(1)[unfolded output_delta_def]] assms(2)
  show ?thesis by (simp add: nth_enumerate_eq Let_def)
qed

lemma backward_loop_biasGradients:
  "backward_loop layers weights activations zs ls delta g = Inr g' \<Longrightarrow>
     \<forall>l\<in>set ls. l + 1 \<noteq> k \<Longrightarrow> biasGradients g' ! k = biasGradients g ! k"
proof (induction ls arbitrary: delta g)
  case Nil
  then show ?case by simp
next
  case (Cons l ls)
  from Cons.prems(2) have lk: "l + 1 \<noteq> k" and rest: "\<forall>l\<in>set ls. l + 1 \<noteq> k" by simp_all
  from Cons.prems(1) obtain d g0 where
    step: "backward_loop layers weights activations zs ls d g0 = Inr g'"
      and g0: "biasGradients g0 = (biasGradients g)[l + 1 := delta]"
    by (auto simp: Let_def split: if_splits sum.splits)
  from Cons.IH[OF step rest] g0 lk show ?case by simp
qed

lemma backward_loop_head:
  "backward_loop layers weights activations zs (l # ls) delta g = Inr g' \<Longrightarrow>
     \<forall>m\<in>set ls. m < l \<Longrightarrow> l + 1 < length (biasGradients g) \<Longrightarrow>
     biasGradients g' ! (l + 1) = delta"
proof -
  assume a: "backward_loop layers weights activations zs (l # ls) delta g = Inr g'"
    and b: "\<forall>m\<in>set ls. m < l" and c: "l + 1 < length (biasGradients g)"
  from a obtain d g0 where
    step: "backward_loop layers weights activations zs ls d g0 = Inr g'"
      and g0: "biasGradients g0 = (biasGradients g)[l + 1 := delta]"
    by (auto simp: Let_def split: if_splits sum.splits)
  from b have "\<forall>m\<in>set ls. m + 1 \<noteq> l + 1" by auto
  from backward_loop_biasGradients[OF step this] g0 c show ?thesis by simp
qed

text \<open>
  \<^verbatim>\<open>forward\<close> returns the activation of the last layer that the pass of \<^verbatim>\<open>backpropagate\<close>
  computes, clamped to \<open>[-1, 1]\<close>: the two passes differ in the clamp only.
\<close>

lemma map_err_post:
  "map_err (\<lambda>j. case f j of Inl e \<Rightarrow> Inl e | Inr z \<Rightarrow> Inr (g z)) xs =
     (case map_err f xs of Inl e \<Rightarrow> Inl e | Inr zs \<Rightarrow> Inr (map g zs))"
  by (induction xs) (auto split: sum.splits)

lemma forward_layer_backprop_layer:
  "forward_layer layers weights biases i cur =
     (case backprop_layer layers weights biases i cur of
        Inl e \<Rightarrow> Inl e
      | Inr z \<Rightarrow>
          Inr (map (\<lambda>x. let a = output' (getActivationFunction (activation_function (layers ! i))) x in
                        if i + 2 = length layers then ensureBounds a (Num (- 1)) (Num 1) else a) z))"
  by (simp add: forward_layer_def backprop_layer_def Let_def map_err_post)

lemma forward_loop_backprop_pass:
  "a + d + 1 = length layers \<Longrightarrow>
     backprop_forward_loop layers weights biases [a..<a + d] cur acts zs = Inr (acts', zs') \<Longrightarrow>
     forward_loop layers weights biases [a..<a + d] cur =
       Inr (if d = 0 then cur else map (\<lambda>x. ensureBounds x (Num (- 1)) (Num 1)) (last acts'))"
proof (induction d arbitrary: a cur acts zs)
  case 0
  then show ?case by simp
next
  case (Suc d)
  have u: "[a..<a + Suc d] = a # [Suc a..<Suc a + d]" by (simp add: upt_conv_Cons)
  from Suc.prems(2) obtain z where z: "backprop_layer layers weights biases a cur = Inr z"
    unfolding u by (cases "backprop_layer layers weights biases a cur") auto
  let ?cur1 = "map (output' (getActivationFunction (activation_function (layers ! a)))) z"
  from Suc.prems(2) z have r: "backprop_forward_loop layers weights biases [Suc a..<Suc a + d] ?cur1
      (acts @ [?cur1]) (zs @ [z]) = Inr (acts', zs')"
    unfolding u by (simp add: Let_def)
  show ?case
  proof (cases "d = 0")
    case True
    with Suc.prems(1) have fin: "a + 2 = length layers" by simp
    from r True have "acts' = acts @ [?cur1]" by simp
    with True fin z show ?thesis
      unfolding u by (simp add: forward_layer_backprop_layer Let_def comp_def)
  next
    case False
    with Suc.prems(1) have nf: "a + 2 \<noteq> length layers" by simp
    from Suc.prems(1) have "Suc a + d + 1 = length layers" by simp
    from Suc.IH[OF this r] False nf z show ?thesis
      unfolding u by (simp add: forward_layer_backprop_layer Let_def comp_def)
  qed
qed

lemma forward_clamps_backprop_pass:
  assumes "2 \<le> length layers"
    and "backprop_forward_loop layers weights biases [0..<length layers - 1] inp [inp] [] = Inr (acts, zs)"
  shows "forward inp layers weights biases =
           Inr (map (\<lambda>x. ensureBounds x (Num (- 1)) (Num 1)) (last acts))"
proof -
  from assms(1) have e: "0 + (length layers - 1) + 1 = length layers" and d: "length layers - 1 \<noteq> 0"
    by simp_all
  from forward_loop_backprop_pass[OF e, of weights biases inp "[inp]" "[]" acts zs] assms(2) d
  show ?thesis by (simp add: forward_def)
qed

text \<open>
  C7. Let \<open>o\<close> be the activation of the last layer that \<^verbatim>\<open>backpropagate\<close> computes for the
  example (its variable \<^verbatim>\<open>output\<close>; this pass does not clamp), \<open>t\<close> the target, and let
  every neighbour be evaluated by \<^verbatim>\<open>forward\<close> under the same weights and biases, all
  numbers at dimension \<open>i\<close> being finite. Then the delta of the output layer, which
  \<^verbatim>\<open>backpropagate\<close> returns as the bias gradient of the last layer, is at dimension \<open>i\<close>
  \<open>(o\<^sub>i - t\<^sub>i) + 0.1 * \<Sum> 2 * sign(o\<^sub>i - n_out\<^sub>i) * (|o\<^sub>i - n_out\<^sub>i| - |t\<^sub>i - n_target\<^sub>i|)\<close>,
  the sum being over the neighbours.
\<close>

theorem output_layer_delta:
  assumes bp: "backpropagate inp tgt neighbors layers weights biases = Inr g"
    and len: "2 \<le> length layers"
    and fp: "backprop_forward_loop layers weights biases [0..<length layers - 1] inp [inp] []
               = Inr (activations, zs)"
    and i: "i < length (last activations)"
    and oi: "last activations ! i = Num o_i"
    and t: "nth_num tgt i = Num t_i"
    and nb: "\<forall>n\<in>set neighbors. \<exists>out a. forward (input n) layers weights biases = Inr out \<and>
            nth_num out i = Num a \<and> finite_num (nth_num (target n) i)"
  shows "biasGradients g ! (length layers - 1) ! i =
           Num ((o_i - t_i) + 1 / 10 *
             (\<Sum>n\<leftarrow>neighbors. 2 * sgn (o_i - neighbor_output layers weights biases i n) *
                (\<bar>o_i - neighbor_output layers weights biases i n\<bar>
                  - \<bar>t_i - real_of (nth_num (target n) i)\<bar>)))"
proof -
  from bp fp obtain delta where
    d: "output_delta layers weights biases tgt neighbors (last activations) = Inr delta"
    and bw: "backward_loop layers weights activations zs (rev [0..<length layers - 1]) delta
                 \<lparr>weightGradients = [],
                  biasGradients = map (\<lambda>layer. replicate (num_neurons layer) (Num 0)) layers\<rparr> = Inr g"
    by (auto simp: backpropagate_def split: sum.splits)
  from len obtain m where m: "length layers - 1 = Suc m" by (cases "length layers - 1") auto
  then have r: "rev [0..<length layers - 1] = m # rev [0..<m]" by simp
  let ?g0 = "\<lparr>weightGradients = [],
      biasGradients = map (\<lambda>layer. replicate (num_neurons layer) (Num 0)) layers\<rparr>"
  have bw': "backward_loop layers weights activations zs (m # rev [0..<m]) delta ?g0 = Inr g"
    using bw unfolding r .
  have s1: "\<forall>k\<in>set (rev [0..<m]). k < m" by simp
  have s2: "m + 1 < length (biasGradients ?g0)" using m by simp
  have "biasGradients g ! (m + 1) = delta"
    by (rule backward_loop_head[OF bw' s1 s2])
  then have bg: "biasGradients g ! (length layers - 1) = delta" using m by simp
  from geoGrad_loop_finite[OF t nb, of o_i 0]
  have geo: "geoGrad_loop layers weights biases tgt i (Num o_i) neighbors (Num 0) =
      Inr (Num (\<Sum>n\<leftarrow>neighbors. geo_term o_i t_i (neighbor_output layers weights biases i n)
                                   (real_of (nth_num (target n) i))))"
    by simp
  from output_delta_nth[OF d i] have "delta ! i = Num ((o_i - t_i) + 1 / 10 *
      (\<Sum>n\<leftarrow>neighbors. geo_term o_i t_i (neighbor_output layers weights biases i n)
                                   (real_of (nth_num (target n) i))))"
    by (simp add: oi geo t)
  with bg show ?thesis by (simp add: geo_term_def)
qed


theorem output_layer_delta_witness:
  "backpropagate [Num 2] [Num 0] [\<lparr>input = [Num (1 / 2)], target = [Num 1]\<rparr>]
     [\<lparr>num_neurons = 1, activation_function = Some ''linear''\<rparr>,
      \<lparr>num_neurons = 1, activation_function = None\<rparr>]
     [(layerKey 0, [Num 1])] [[Num 0], [Num 0]]
     = Inr \<lparr>weightGradients = [(layerKey 0, [Num (21 / 5)])],
            biasGradients = [[Num 0], [Num (21 / 10)]]\<rparr>
   \<and> biasGradients \<lparr>weightGradients = [(layerKey 0, [Num (21 / 5)])],
                     biasGradients = [[Num 0], [Num (21 / 10)]]\<rparr> ! 1 ! 0
       = Num ((2 - 0) + 1 / 10 * (2 * sgn (2 - 1 / 2) * (\<bar>2 - 1 / 2\<bar> - \<bar>0 - 1\<bar>)))"
  using output_layer_delta [of "[Num 2]" "[Num 0]" "[\<lparr>input = [Num (1 / 2)], target = [Num 1]\<rparr>]"
     "[\<lparr>num_neurons = 1, activation_function = Some ''linear''\<rparr>,
       \<lparr>num_neurons = 1, activation_function = None\<rparr>]"
     "[(layerKey 0, [Num 1])]" "[[Num 0], [Num 0]]"
     "\<lparr>weightGradients = [(layerKey 0, [Num (21 / 5)])],
       biasGradients = [[Num 0], [Num (21 / 10)]]\<rparr>"
     "[[Num 2], [Num 2]]" "[[Num 2]]" 0 2 0]
  by (simp add: forward_def forward_layer_def backpropagate_def backprop_layer_def
      output_delta_def neuron_input_def Let_def getActivationFunction_def linear'_def
      ensureBounds_def jmax_def jmin_def nth_num_def enumerate_eq_zip neighbor_output_def
      jsub_def)

section \<open>Evaluation of a run\<close>

text \<open>The definitions that the evaluation of a run on concrete data unfolds.\<close>

lemmas eval_simps = forward_def forward_layer_def backpropagate_def backprop_layer_def
  output_delta_def neuron_input_def Let_def getActivationFunction_def linear'_def
  ensureBounds_def jmax_def jmin_def nth_num_def enumerate_eq_zip jsub_def
  trainNetwork_def findBounds_def assign_at_def normalizePoint_def normalizeCoord_def
  json_copy_weights_def json_copy_biases_def epoch_loop.simps batch_loop.simps
  batch_step_def example_step_def findKNearestNeighbors_def sort_by_dist_def
  computeGeometricLoss_def dimWeights_def jsquare_def accumulate_weights_def
  accumulate_biases_def clip_batch_def clipGradients_def update_parameters_def
  update_biases_def new_velocity_def new_bias_velocity_def formatWeightsForDisplay_def
  jeq_def jgt_def distance_def upt_rec newWeights_def newBiases_def assignEntry_def
  caller_store_def

text \<open>
  A run on one example, with the caller's tables at the references \<open>0\<close>. The copies are
  the weight table \<open>1\<close> and the bias table \<open>1\<close>; the update of the batch assigns to the
  weight table \<open>1\<close> and creates the bias table \<open>2\<close>.
\<close>

lemma single_example_run:
  "trainNetwork
     [\<lparr>num_neurons = 1, activation_function = Some ''linear''\<rparr>,
      \<lparr>num_neurons = 1, activation_function = None\<rparr>]
     0 0
     [\<lparr>input = [Num 3], target = [Num 5]\<rparr>]
     \<lparr>learningRate = Some (Num 1), epochs = Some 1, batchSize = Some 2,
      l2Factor = Some (Num 1), onProgress = Some (\<lambda>epoch err w b. c)\<rparr>
     (\<lambda>epoch xs. xs)
     (caller_store [(layerKey 0, [Num 1])] [[Num 0], [Num 1]]) =
   Some (Inr \<lparr>r_weights = [(layerKey 0, [Num 0])],
              r_displayWeights = [(layerKey 0, [Num 0])],
              r_biases = [[Num 0], [Num 0]], r_error = Num (11 / 10),
              r_normalization =
                \<lparr>inputMins = [Num 3], inputMaxs = [Num 3],
                 targetMins = [Num 5], targetMaxs = [Num 5]\<rparr>\<rparr>,
        \<lparr>store =
           \<lparr>weightTables = (\<lambda>a. [])(0 := [(layerKey 0, [Num 1])], 1 := [(layerKey 0, [Num 0])]),
            biasTables = (\<lambda>a. [])(0 := [[Num 0], [Num 1]], 1 := [[Num 0], [Num 1]],
                                      2 := [[Num 0], [Num 0]]),
            nextWeights = 2, nextBiases = 3\<rparr>,
         currentWeights = 1, currentBiases = 2,
         weightVelocities = [(layerKey 0, [Num (- 1)])],
         biasVelocities = [[Num 0], [Num (- 1)]], totalError = Num (11 / 10)\<rparr>,
        [(0, Num (11 / 10), [(layerKey 0, [Num 0])], [[Num 0], [Num 0]], c)])"
  by (simp add: eval_simps numeral_2_eq_2 numeral_3_eq_3)

text \<open>
  A run that throws in the middle of the update of a batch. The input layer has no neuron,
  so the pair \<open>(0, 1)\<close> has no weight and the weight table of the caller has no entry for
  it, and \<^verbatim>\<open>forward\<close> and \<^verbatim>\<open>backpropagate\<close> read none; \<^verbatim>\<open>backpropagate\<close> returns the gradient
  of the pair \<open>(1, 2)\<close> and the empty gradient of the pair \<open>(0, 1)\<close>. The update assigns the
  new row of the pair \<open>(1, 2)\<close> to the run's table, and then throws at
  \<^verbatim>\<open>weightVelocities[key].map\<close> for the key of the pair \<open>(0, 1)\<close>, before the biases are updated.
\<close>

lemma layerKey_0: "layerKey 0 = ''layer0_1''"
  by (simp add: layerKey_def char_of_def bit_iff_odd)

lemma layerKey_1: "layerKey (Suc 0) = ''layer1_2''"
  by (simp add: layerKey_def char_of_def bit_iff_odd)

lemma aborting_run:
  "trainNetwork
     [\<lparr>num_neurons = 0, activation_function = Some ''linear''\<rparr>,
      \<lparr>num_neurons = 1, activation_function = Some ''linear''\<rparr>,
      \<lparr>num_neurons = 1, activation_function = None\<rparr>]
     0 0
     [\<lparr>input = [], target = [Num 5]\<rparr>]
     \<lparr>learningRate = Some (Num 1), epochs = Some 1, batchSize = Some 2,
      l2Factor = Some (Num 1), onProgress = Some (\<lambda>epoch err w b. True)\<rparr>
     (\<lambda>epoch xs. xs)
     (caller_store [(''layer1_2'', [Num 1])] [[], [Num 0], [Num 1]]) =
   Some (Inl TypeError,
        \<lparr>store =
           \<lparr>weightTables = (\<lambda>a. [])(0 := [(''layer1_2'', [Num 1])], 1 := [(''layer1_2'', [Num 0])]),
            biasTables = (\<lambda>a. [])(0 := [[], [Num 0], [Num 1]], 1 := [[], [Num 0], [Num 1]]),
            nextWeights = 2, nextBiases = 2\<rparr>,
         currentWeights = 1, currentBiases = 1,
         weightVelocities = [(''layer1_2'', [Num (- 1)])],
         biasVelocities = [[], [Num 0], [Num 0]],
         totalError = Num (11 / 10)\<rparr>,
        [])"
  by (simp add: eval_simps numeral_2_eq_2 numeral_3_eq_3 layerKey_0 layerKey_1)

section \<open>The parameter update\<close>

lemma assignEntry_simps [simp]:
  "weightTables (assignEntry t key row s) =
     (weightTables s)(t := AList.update key row (weightTables s t))"
  "biasTables (assignEntry t key row s) = biasTables s"
  "nextWeights (assignEntry t key row s) = nextWeights s"
  "nextBiases (assignEntry t key row s) = nextBiases s"
  by (simp_all add: assignEntry_def)

lemma newBiases_simps [simp]:
  "fst (newBiases table s) = nextBiases s"
  "biasTables (snd (newBiases table s)) = (biasTables s)(nextBiases s := table)"
  "weightTables (snd (newBiases table s)) = weightTables s"
  "nextWeights (snd (newBiases table s)) = nextWeights s"
  "nextBiases (snd (newBiases table s)) = nextBiases s + 1"
  by (simp_all add: newBiases_def)

lemma newWeights_simps [simp]:
  "fst (newWeights table s) = nextWeights s"
  "weightTables (snd (newWeights table s)) = (weightTables s)(nextWeights s := table)"
  "biasTables (snd (newWeights table s)) = biasTables s"
  "nextWeights (snd (newWeights table s)) = nextWeights s + 1"
  "nextBiases (snd (newWeights table s)) = nextBiases s"
  by (simp_all add: newWeights_def)

lemma update_weights_other:
  "update_weights momentum scaledLR l2 grads st = (r, st') \<Longrightarrow>
     key \<notin> fst ` set grads \<Longrightarrow>
     map_of (weightVelocities st') key = map_of (weightVelocities st) key \<and>
     map_of (weightTables (store st') (currentWeights st')) key =
       map_of (weightTables (store st) (currentWeights st)) key"
proof (induction grads arbitrary: st)
  case Nil
  then show ?case by simp
next
  case (Cons a grads)
  obtain k gs where a: "a = (k, gs)" by (cases a)
  from Cons.prems(2) a have kk: "k \<noteq> key" and rest: "key \<notin> fst ` set grads" by auto
  show ?case
  proof (cases "map_of (weightVelocities st) k")
    case None
    with Cons.prems(1) a show ?thesis by simp
  next
    case (Some vs)
    show ?thesis
    proof (cases "map_of (weightTables (store st) (currentWeights st)) k")
      case None
      with Cons.prems(1) a Some show ?thesis by simp
    next
      case (Some ws)
      with Cons.prems(1) a \<open>map_of (weightVelocities st) k = Some vs\<close>
      obtain st1 where st1: "update_weights momentum scaledLR l2 grads st1 = (r, st')"
        and v1: "map_of (weightVelocities st1) key = map_of (weightVelocities st) key"
        and w1: "map_of (weightTables (store st1) (currentWeights st1)) key =
                 map_of (weightTables (store st) (currentWeights st)) key"
        using kk by (auto simp: Let_def update_conv')
      from Cons.IH[OF st1 rest] v1 w1 show ?thesis by simp
    qed
  qed
qed

lemma update_weights_frame:
  "update_weights momentum scaledLR l2 grads st = (r, st') \<Longrightarrow>
     currentWeights st' = currentWeights st \<and> currentBiases st' = currentBiases st \<and>
     biasVelocities st' = biasVelocities st \<and> totalError st' = totalError st \<and>
     biasTables (store st') = biasTables (store st) \<and>
     nextWeights (store st') = nextWeights (store st) \<and>
     nextBiases (store st') = nextBiases (store st) \<and>
     (\<forall>a. a \<noteq> currentWeights st \<longrightarrow> weightTables (store st') a = weightTables (store st) a)"
proof (induction grads arbitrary: st)
  case Nil
  then show ?case by simp
next
  case (Cons a grads)
  obtain k gs where a: "a = (k, gs)" by (cases a)
  show ?case
  proof (cases "map_of (weightVelocities st) k")
    case None
    with Cons.prems(1) a show ?thesis by simp
  next
    case (Some vs)
    show ?thesis
    proof (cases "map_of (weightTables (store st) (currentWeights st)) k")
      case None
      with Cons.prems(1) a Some show ?thesis by simp
    next
      case (Some ws)
      with Cons.prems(1) a \<open>map_of (weightVelocities st) k = Some vs\<close>
      obtain st1 where st1: "update_weights momentum scaledLR l2 grads st1 = (r, st')"
        and f: "currentWeights st1 = currentWeights st" "currentBiases st1 = currentBiases st"
          "biasVelocities st1 = biasVelocities st" "totalError st1 = totalError st"
          "biasTables (store st1) = biasTables (store st)"
          "nextWeights (store st1) = nextWeights (store st)"
          "nextBiases (store st1) = nextBiases (store st)"
          "\<forall>a. a \<noteq> currentWeights st \<longrightarrow> weightTables (store st1) a = weightTables (store st) a"
        by (auto simp: Let_def)
      from Cons.IH[OF st1] f show ?thesis by simp
    qed
  qed
qed

lemma update_weights_entry:
  "update_weights momentum scaledLR l2 grads st = (None, st') \<Longrightarrow>
     distinct (map fst grads) \<Longrightarrow> map_of grads key = Some gs \<Longrightarrow>
     map_of (weightVelocities st) key = Some vs \<Longrightarrow>
     map_of (weightTables (store st) (currentWeights st)) key = Some ws \<Longrightarrow>
     map_of (weightVelocities st') key =
       Some (map (\<lambda>(i, v). new_velocity momentum scaledLR l2 v (nth_num gs i) (nth_num ws i))
               (enumerate 0 vs)) \<and>
     map_of (weightTables (store st') (currentWeights st')) key =
       Some (map (\<lambda>(i, w). jadd w
                 (nth_num (map (\<lambda>(i, v). new_velocity momentum scaledLR l2 v (nth_num gs i) (nth_num ws i))
                            (enumerate 0 vs)) i))
               (enumerate 0 ws))"
proof (induction grads arbitrary: st)
  case Nil
  then show ?case by simp
next
  case (Cons a grads)
  obtain k g0 where a: "a = (k, g0)" by (cases a)
  from Cons.prems(2) a have d: "distinct (map fst grads)" and kn: "k \<notin> fst ` set grads" by auto
  show ?case
  proof (cases "k = key")
    case True
    with Cons.prems(3) a have g0: "g0 = gs" by simp
    let ?vs' = "map (\<lambda>(i, v). new_velocity momentum scaledLR l2 v (nth_num gs i) (nth_num ws i))
                  (enumerate 0 vs)"
    let ?ws' = "map (\<lambda>(i, w). jadd w (nth_num ?vs' i)) (enumerate 0 ws)"
    let ?st1 = "st\<lparr>weightVelocities := AList.update key ?vs' (weightVelocities st),
                   store := assignEntry (currentWeights st) key ?ws' (store st)\<rparr>"
    from Cons.prems(1,4,5) a True g0
    have st1: "update_weights momentum scaledLR l2 grads ?st1 = (None, st')"
      by (simp add: Let_def)
    from kn True have "key \<notin> fst ` set grads" by simp
    from update_weights_other[OF st1 this] show ?thesis by (simp add: update_conv')
  next
    case False
    with Cons.prems(3) a have m: "map_of grads key = Some gs" by simp
    from Cons.prems(1) a obtain vk wk where
      vk: "map_of (weightVelocities st) k = Some vk" and wk: "map_of (weightTables (store st) (currentWeights st)) k = Some wk"
      by (auto split: option.splits)
    with Cons.prems(1) a obtain st1 where st1: "update_weights momentum scaledLR l2 grads st1 = (None, st')"
      and v1: "map_of (weightVelocities st1) key = map_of (weightVelocities st) key"
      and w1: "map_of (weightTables (store st1) (currentWeights st1)) key =
                 map_of (weightTables (store st) (currentWeights st)) key"
      using False by (auto simp: Let_def update_conv')
    from Cons.IH[OF st1 d m] v1 w1 Cons.prems(4,5) show ?thesis by simp
  qed
qed


lemma update_bias_rows_spec:
  "update_bias_rows m lr bb (enumerate n layers) vel done = (Inr rows, vel') \<Longrightarrow>
     length rows = length done + length layers \<and> take (length done) rows = done \<and>
     length vel' = length vel \<and> (\<forall>q<n. vel' ! q = vel ! q) \<and>
     (\<forall>r<length layers. \<forall>j<length (layers ! r).
        vel' ! (n + r) ! j =
          new_bias_velocity m lr (nth_num (vel ! (n + r)) j) (nth_num (bb ! (n + r)) j) \<and>
        rows ! (length done + r) ! j =
          jadd (layers ! r ! j)
            (new_bias_velocity m lr (nth_num (vel ! (n + r)) j) (nth_num (bb ! (n + r)) j)))"
proof (induction layers arbitrary: n vel "done")
  case Nil
  then show ?case by simp
next
  case (Cons l ls)
  show ?case
  proof (cases "l = []")
    case True
    with Cons.prems have step: "update_bias_rows m lr bb (enumerate (Suc n) ls) vel (done @ [[]]) = (Inr rows, vel')"
      by simp
    note ih = Cons.IH[OF step]
    from ih have len: "length rows = length done + length (l # ls)" by simp
    from ih have "take (length done) (take (length (done @ [[]])) rows) = take (length done) (done @ [[]])"
      by simp
    then have tk: "take (length done) rows = done" by (simp add: min_def)
    from ih have lv: "length vel' = length vel" and low: "\<forall>q<n. vel' ! q = vel ! q" by simp_all
    have "vel' ! (n + r) ! j = new_bias_velocity m lr (nth_num (vel ! (n + r)) j) (nth_num (bb ! (n + r)) j) \<and>
        rows ! (length done + r) ! j =
          jadd ((l # ls) ! r ! j)
            (new_bias_velocity m lr (nth_num (vel ! (n + r)) j) (nth_num (bb ! (n + r)) j))"
      if r: "r < length (l # ls)" and j: "j < length ((l # ls) ! r)" for r j
    proof (cases r)
      case 0
      with j True show ?thesis by simp
    next
      case (Suc r')
      with r j ih show ?thesis by simp
    qed
    with len tk lv low show ?thesis by blast
  next
    case False
    let ?vrow = "map (\<lambda>j. new_bias_velocity m lr (nth_num (vel ! n) j) (nth_num (bb ! n) j))
                      [0..<length l]"
    let ?l' = "map (\<lambda>(j, b). jadd b (nth_num ?vrow j)) (enumerate 0 l)"
    let ?vel1 = "vel[n := ?vrow @ drop (length l) (vel ! n)]"
    from Cons.prems False have rng: "n < length vel" "n < length bb"
      by (auto split: if_splits)
    with Cons.prems False
    have step: "update_bias_rows m lr bb (enumerate (Suc n) ls) ?vel1 (done @ [?l']) = (Inr rows, vel')"
      by (simp add: Let_def)
    note ih = Cons.IH[OF step]
    from ih have len: "length rows = length done + length (l # ls)" by simp
    from ih have t1: "take (Suc (length done)) rows = done @ [?l']" by simp
    then have "take (length done) (take (Suc (length done)) rows) = take (length done) (done @ [?l'])"
      by simp
    then have tk: "take (length done) rows = done" by (simp add: min_def)
    from t1 len have r0: "rows ! (length done) = ?l'"
      by (metis lessI nth_append_length nth_take)
    from ih have lv: "length vel' = length vel" by simp
    from ih have low1: "\<forall>q<Suc n. vel' ! q = ?vel1 ! q" by simp
    then have low: "\<forall>q<n. vel' ! q = vel ! q" by simp
    from low1 rng have vn: "vel' ! n = ?vrow @ drop (length l) (vel ! n)" by simp
    have "vel' ! (n + r) ! j = new_bias_velocity m lr (nth_num (vel ! (n + r)) j) (nth_num (bb ! (n + r)) j) \<and>
        rows ! (length done + r) ! j =
          jadd ((l # ls) ! r ! j)
            (new_bias_velocity m lr (nth_num (vel ! (n + r)) j) (nth_num (bb ! (n + r)) j))"
      if r: "r < length (l # ls)" and j: "j < length ((l # ls) ! r)" for r j
    proof (cases r)
      case 0
      with j have jl: "j < length l" by simp
      then show ?thesis using 0 vn r0
        by (simp add: nth_append nth_enumerate_eq nth_num_def)
    next
      case (Suc r')
      with r j have r': "r' < length ls" and j': "j < length (ls ! r')" by simp_all
      from ih r' j' have "vel' ! (Suc n + r') ! j =
          new_bias_velocity m lr (nth_num (?vel1 ! (Suc n + r')) j) (nth_num (bb ! (Suc n + r')) j) \<and>
        rows ! (length (done @ [?l']) + r') ! j =
          jadd (ls ! r' ! j)
            (new_bias_velocity m lr (nth_num (?vel1 ! (Suc n + r')) j) (nth_num (bb ! (Suc n + r')) j))"
        by blast
      then show ?thesis using Suc by simp
    qed
    with len tk lv low show ?thesis by blast
  qed
qed

lemma update_biases_frame:
  "update_biases momentum scaledLR bb st = (r, st') \<Longrightarrow>
     currentWeights st' = currentWeights st \<and> weightVelocities st' = weightVelocities st \<and>
     totalError st' = totalError st \<and>
     weightTables (store st') = weightTables (store st) \<and>
     nextWeights (store st') = nextWeights (store st) \<and>
     nextBiases (store st) \<le> nextBiases (store st') \<and>
     (\<forall>a<nextBiases (store st). biasTables (store st') a = biasTables (store st) a) \<and>
     (currentBiases st' = currentBiases st \<or> nextBiases (store st) \<le> currentBiases st')"
  by (auto simp: update_biases_def split: prod.splits sum.splits)

lemma update_biases_entry:
  assumes "update_biases momentum scaledLR bb st = (None, st')"
    and "r < length (biasTables (store st) (currentBiases st))"
      "j < length (biasTables (store st) (currentBiases st) ! r)"
  shows "biasVelocities st' ! r ! j =
           new_bias_velocity momentum scaledLR (nth_num (biasVelocities st ! r) j) (nth_num (bb ! r) j) \<and>
         biasTables (store st') (currentBiases st') ! r ! j =
           jadd (biasTables (store st) (currentBiases st) ! r ! j)
             (new_bias_velocity momentum scaledLR (nth_num (biasVelocities st ! r) j) (nth_num (bb ! r) j))"
proof -
  from assms(1) obtain rows vel' where
    u: "update_bias_rows momentum scaledLR bb (enumerate 0 (biasTables (store st) (currentBiases st)))
          (biasVelocities st) [] = (Inr rows, vel')"
    and s: "st' = st\<lparr>biasVelocities := vel', store := snd (newBiases rows (store st)),
                     currentBiases := fst (newBiases rows (store st))\<rparr>"
    by (auto simp: update_biases_def split: prod.splits sum.splits)
  from update_bias_rows_spec[OF u] assms(2,3) s show ?thesis by simp
qed

text \<open>
  The gradients that a batch accumulates and clips have one entry for each key, as the
  object \<^verbatim>\<open>batchGradients.weights\<close> has.
\<close>

lemma accumulate_weights_distinct:
  "distinct (map fst bw) \<Longrightarrow> distinct (map fst (accumulate_weights wg bw))"
  unfolding accumulate_weights_def
proof (induction wg arbitrary: bw)
  case Nil
  then show ?case by simp
next
  case (Cons a wg)
  obtain key g where a: "a = (key, g)" by (cases a)
  show ?case
    using Cons.prems a
    by (cases "map_of bw key") (auto intro!: Cons.IH AList.distinct_update)
qed

lemma example_step_distinct:
  "example_step P batch example bg st = (Inr bg', st') \<Longrightarrow> distinct (map fst (bg_weights bg)) \<Longrightarrow>
     distinct (map fst (bg_weights bg'))"
  by (auto simp: example_step_def Let_def accumulate_weights_distinct split: sum.splits)

lemma examples_loop_distinct:
  "examples_loop P batch exs bg st = (Inr bg', st') \<Longrightarrow> distinct (map fst (bg_weights bg)) \<Longrightarrow>
     distinct (map fst (bg_weights bg'))"
proof (induction exs arbitrary: bg st)
  case Nil
  then show ?case by simp
next
  case (Cons example rest)
  obtain r1 st1 where s: "example_step P batch example bg st = (r1, st1)"
    by (cases "example_step P batch example bg st")
  show ?case
  proof (cases r1)
    case (Inl e)
    with Cons.prems s show ?thesis by simp
  next
    case (Inr bg1)
    with Cons.prems s have "examples_loop P batch rest bg1 st1 = (Inr bg', st')" by simp
    moreover from example_step_distinct s Inr Cons.prems(2) have "distinct (map fst (bg_weights bg1))"
      by blast
    ultimately show ?thesis by (rule Cons.IH)
  qed
qed

lemma clip_batch_keys: "map fst (bg_weights (clip_batch bg)) = map fst (bg_weights bg)"
  by (auto simp: clip_batch_def clipGradients_def Let_def)

lemma batch_gradient_keys_distinct:
  assumes "examples_loop P batch batch \<lparr>bg_weights = [], bg_biases = bb\<rparr> st = (Inr bg, st')"
  shows "distinct (map fst (bg_weights (clip_batch bg)))"
  using examples_loop_distinct[OF assms] by (simp add: clip_batch_keys)

text \<open>
  C5, as the specification states it, fails for a short batch. One example, batch size 2,
  learning rate 1, L2 factor 1, one epoch, the weight 1 and the output bias 1: the only
  batch has one example, its weight gradient is 0 and its bias gradient 1. The caller's
  tables are at the references \<open>0\<close>; the run's own weight table is at \<open>1\<close>, and its bias
  table after the update is at \<open>2\<close>. With the
  configured batch size the rule gives the weight \<open>1 + (0.9 * 0 - 1/2 * (0 + 1 * 1)) = 1/2\<close>
  and the bias \<open>1 + (0.9 * 0 - 1/2 * 1) = 1/2\<close>; the run returns the weight 0 and the
  bias 0, because the learning rate is divided by the number of examples of the batch.
\<close>

theorem short_batch_counterexample:
  "trainNetwork
     [\<lparr>num_neurons = 1, activation_function = Some ''linear''\<rparr>,
      \<lparr>num_neurons = 1, activation_function = None\<rparr>]
     0 0
     [\<lparr>input = [Num 3], target = [Num 5]\<rparr>]
     \<lparr>learningRate = Some (Num 1), epochs = Some 1, batchSize = Some 2,
      l2Factor = Some (Num 1), onProgress = Some (\<lambda>epoch err w b. True)\<rparr>
     (\<lambda>epoch xs. xs)
     (caller_store [(layerKey 0, [Num 1])] [[Num 0], [Num 1]]) =
   Some (Inr \<lparr>r_weights = [(layerKey 0, [Num 0])],
              r_displayWeights = [(layerKey 0, [Num 0])],
              r_biases = [[Num 0], [Num 0]], r_error = Num (11 / 10),
              r_normalization =
                \<lparr>inputMins = [Num 3], inputMaxs = [Num 3],
                 targetMins = [Num 5], targetMaxs = [Num 5]\<rparr>\<rparr>,
        \<lparr>store =
           \<lparr>weightTables = (\<lambda>a. [])(0 := [(layerKey 0, [Num 1])], 1 := [(layerKey 0, [Num 0])]),
            biasTables = (\<lambda>a. [])(0 := [[Num 0], [Num 1]], 1 := [[Num 0], [Num 1]],
                                      2 := [[Num 0], [Num 0]]),
            nextWeights = 2, nextBiases = 3\<rparr>,
         currentWeights = 1, currentBiases = 2,
         weightVelocities = [(layerKey 0, [Num (- 1)])],
         biasVelocities = [[Num 0], [Num (- 1)]], totalError = Num (11 / 10)\<rparr>,
        [(0, Num (11 / 10), [(layerKey 0, [Num 0])], [[Num 0], [Num 0]], True)])
   \<and> Num 0 \<noteq> Num (1 + (9 / 10 * 0 - 1 / 2 * (0 + 1 * 1)))
   \<and> Num 0 \<noteq> Num (1 + (9 / 10 * 0 - 1 / 2 * 1))"
  using single_example_run [of True] by simp

text \<open>
  C5, amended. In the parameter update of a mini-batch, for finite numbers, the velocity of
  a weight becomes \<open>momentum * velocity - (lr / n) * (gradient + l2 * weight)\<close> and the weight is
  incremented by the new velocity, where \<open>lr\<close> is the decayed learning rate of the epoch
  and \<open>n\<close> is the number of examples of the batch (\<^verbatim>\<open>batch.length\<close>), which for the last
  batch can be less than the configured batch size; a bias is updated by the same rule
  without the L2 term.
\<close>

theorem parameter_update_rule:
  assumes up: "update_parameters (Num m) (Num lr) (Num l2) batch bg st = (None, st')"
    and ne: "batch \<noteq> []"
    and dist: "distinct (map fst (bg_weights bg))"
    and key: "map_of (bg_weights bg) key = Some gs" "map_of (weightVelocities st) key = Some vs"
      "map_of (weightTables (store st) (currentWeights st)) key = Some ws"
    and i: "i < length vs" "i < length ws" "vs ! i = Num v" "nth_num gs i = Num g" "ws ! i = Num w"
    and r: "r < length (biasTables (store st) (currentBiases st))"
      "j < length (biasTables (store st) (currentBiases st) ! r)"
      "biasTables (store st) (currentBiases st) ! r ! j = Num b"
      "nth_num (biasVelocities st ! r) j = Num bv"
      "nth_num (bg_biases bg ! r) j = Num bgr"
  shows "(\<exists>vs' ws'. map_of (weightVelocities st') key = Some vs' \<and>
            map_of (weightTables (store st') (currentWeights st')) key = Some ws' \<and>
            vs' ! i = Num (m * v - lr / real (length batch) * (g + l2 * w)) \<and>
            ws' ! i = Num (w + (m * v - lr / real (length batch) * (g + l2 * w)))) \<and>
         biasVelocities st' ! r ! j = Num (m * bv - lr / real (length batch) * bgr) \<and>
         biasTables (store st') (currentBiases st') ! r ! j =
           Num (b + (m * bv - lr / real (length batch) * bgr))"
proof -
  define slr where "slr = jdiv (Num lr) (Num (real (length batch)))"
  from ne have lr: "slr = Num (lr / real (length batch))" by (simp add: slr_def)
  from up obtain st1 where w: "update_weights (Num m) slr (Num l2) (bg_weights bg) st = (None, st1)"
    and b: "update_biases (Num m) slr (bg_biases bg) st1 = (None, st')"
    unfolding slr_def by (auto simp: update_parameters_def Let_def split: prod.splits option.splits)
  note we = update_weights_entry[OF w dist key]
  note wf = update_weights_frame[OF w]
  note bf = update_biases_frame[OF b]
  let ?vs' = "map (\<lambda>(i, v). new_velocity (Num m) slr (Num l2) v (nth_num gs i) (nth_num ws i))
               (enumerate 0 vs)"
  let ?ws' = "map (\<lambda>(i, w). jadd w (nth_num ?vs' i)) (enumerate 0 ws)"
  have v': "?vs' ! i = Num (m * v - lr / real (length batch) * (g + l2 * w))"
    using i by (simp add: nth_enumerate_eq new_velocity_def lr nth_num_def Let_def)
  have w': "?ws' ! i = Num (w + (m * v - lr / real (length batch) * (g + l2 * w)))"
    using i v' by (simp add: nth_enumerate_eq nth_num_def)
  have wpart: "\<exists>vs' ws'. map_of (weightVelocities st') key = Some vs' \<and>
            map_of (weightTables (store st') (currentWeights st')) key = Some ws' \<and>
            vs' ! i = Num (m * v - lr / real (length batch) * (g + l2 * w)) \<and>
            ws' ! i = Num (w + (m * v - lr / real (length batch) * (g + l2 * w)))"
    using we bf v' w' by (intro exI[of _ ?vs'] exI[of _ ?ws']) simp
  from r wf have r1: "r < length (biasTables (store st1) (currentBiases st1))"
      "j < length (biasTables (store st1) (currentBiases st1) ! r)" by simp_all
  from update_biases_entry[OF b r1] wf r
  have "biasVelocities st' ! r ! j = Num (m * bv - lr / real (length batch) * bgr) \<and>
         biasTables (store st') (currentBiases st') ! r ! j =
           Num (b + (m * bv - lr / real (length batch) * bgr))"
    by (simp add: new_bias_velocity_def lr)
  with wpart show ?thesis by blast
qed

theorem parameter_update_rule_witness:
  "update_parameters (Num (1 / 2)) (Num 2) (Num 1)
     [\<lparr>input = [Num 0], target = [Num 0]\<rparr>, \<lparr>input = [Num 1], target = [Num 1]\<rparr>]
     \<lparr>bg_weights = [(''layer0_1'', [Num 3])], bg_biases = [[Num 4]]\<rparr>
     \<lparr>store = \<lparr>weightTables = (\<lambda>a. [])(1 := [(''layer0_1'', [Num 5])]),
                biasTables = (\<lambda>a. [])(1 := [[Num 6]]), nextWeights = 2, nextBiases = 2\<rparr>,
      currentWeights = 1, currentBiases = 1, weightVelocities = [(''layer0_1'', [Num 8])],
      biasVelocities = [[Num 10]], totalError = Num 0\<rparr>
   = (None,
      \<lparr>store = \<lparr>weightTables = (\<lambda>a. [])(1 := [(''layer0_1'', [Num 1])]),
                 biasTables = (\<lambda>a. [])(1 := [[Num 6]], 2 := [[Num 7]]),
                 nextWeights = 2, nextBiases = 3\<rparr>,
       currentWeights = 1, currentBiases = 2, weightVelocities = [(''layer0_1'', [Num (- 4)])],
       biasVelocities = [[Num 1]], totalError = Num 0\<rparr>)
   \<and> Num (- 4) = Num (1 / 2 * 8 - 2 / 2 * (3 + 1 * 5))
   \<and> Num 1 = Num (1 / 2 * 10 - 2 / 2 * 4)"
  using parameter_update_rule [of "1 / 2" 2 1
     "[\<lparr>input = [Num 0], target = [Num 0]\<rparr>, \<lparr>input = [Num 1], target = [Num 1]\<rparr>]"
     "\<lparr>bg_weights = [(''layer0_1'', [Num 3])], bg_biases = [[Num 4]]\<rparr>"
     "\<lparr>store = \<lparr>weightTables = (\<lambda>a. [])(1 := [(''layer0_1'', [Num 5])]),
                biasTables = (\<lambda>a. [])(1 := [[Num 6]]), nextWeights = 2, nextBiases = 2\<rparr>,
      currentWeights = 1, currentBiases = 1, weightVelocities = [(''layer0_1'', [Num 8])],
      biasVelocities = [[Num 10]], totalError = Num 0\<rparr>"
     "\<lparr>store = \<lparr>weightTables = (\<lambda>a. [])(1 := [(''layer0_1'', [Num 1])]),
                 biasTables = (\<lambda>a. [])(1 := [[Num 6]], 2 := [[Num 7]]),
                 nextWeights = 2, nextBiases = 3\<rparr>,
       currentWeights = 1, currentBiases = 2, weightVelocities = [(''layer0_1'', [Num (- 4)])],
       biasVelocities = [[Num 1]], totalError = Num 0\<rparr>"
     "''layer0_1''" "[Num 3]" "[Num 8]" "[Num 5]" 0 8 3 5 0 0 6 10 4]
  by (simp add: update_parameters_def update_biases_def new_velocity_def new_bias_velocity_def
      nth_num_def enumerate_eq_zip Let_def)

section \<open>Gradient clipping\<close>

lemma sum_squares_finite:
  "list_all finite_num gs \<Longrightarrow>
     foldl (\<lambda>sum g. jadd sum (jmul g g)) (Num a) gs = Num (a + (\<Sum>g\<leftarrow>gs. (real_of g)\<^sup>2))"
proof (induction gs arbitrary: a)
  case Nil
  then show ?case by simp
next
  case (Cons g gs)
  then obtain b where g: "g = Num b" by (cases g) auto
  from Cons.prems have "list_all finite_num gs" by simp
  from Cons.IH[OF this, of "a + b * b"] show ?case
    by (simp add: g power2_eq_square algebra_simps)
qed

lemma norm_finite:
  assumes "list_all finite_num gs"
  shows "jsqrt (foldl (\<lambda>sum g. jadd sum (jmul g g)) (Num 0) gs) = Num (l2_norm gs)"
proof -
  have "0 \<le> (\<Sum>g\<leftarrow>gs. (real_of g)\<^sup>2)" by (rule sum_list_nonneg) auto
  then show ?thesis using sum_squares_finite[OF assms, of 0] by (simp add: l2_norm_def)
qed

lemma l2_norm_scaled:
  assumes "0 \<le> c"
  shows "l2_norm (map (\<lambda>g. Num (real_of g * c)) gs) = c * l2_norm gs"
proof -
  have "(\<Sum>g\<leftarrow>gs. (real_of g * c)\<^sup>2) = c\<^sup>2 * (\<Sum>g\<leftarrow>gs. (real_of g)\<^sup>2)"
    by (induction gs) (simp_all add: algebra_simps)
  then have "l2_norm (map (\<lambda>g. Num (real_of g * c)) gs) = sqrt (c\<^sup>2 * (\<Sum>g\<leftarrow>gs. (real_of g)\<^sup>2))"
    by (simp add: l2_norm_def comp_def)
  also have "\<dots> = c * l2_norm gs"
    using assms by (simp add: real_sqrt_mult l2_norm_def)
  finally show ?thesis .
qed

lemma clip_entry:
  assumes fin: "list_all finite_num gs"
  shows "\<exists>gs'. (let norm = jsqrt (foldl (\<lambda>sum g. jadd sum (jmul g g)) (Num 0) gs) in
             if jgt norm (Num (1 / 2))
             then (let scale = jdiv (Num (1 / 2)) norm in (key, map (\<lambda>g. jmul g scale) gs))
             else (key, gs)) = (key, gs') \<and>
           list_all finite_num gs' \<and> l2_norm gs' \<le> 1 / 2 \<and>
           (1 / 2 < l2_norm gs \<longrightarrow>
              l2_norm gs' = 1 / 2 \<and> gs' = map (\<lambda>g. Num (real_of g * (1 / 2 / l2_norm gs))) gs) \<and>
           (l2_norm gs \<le> 1 / 2 \<longrightarrow> gs' = gs)"
proof (cases "1 / 2 < l2_norm gs")
  case True
  let ?c = "1 / 2 / l2_norm gs"
  from True have pos: "0 < l2_norm gs" by simp
  have "jmul g (Num c) = Num (real_of g * c)" if "finite_num g" for g c
    using that by (cases g) auto
  with fin have m: "map (\<lambda>g. jmul g (Num ?c)) gs = map (\<lambda>g. Num (real_of g * ?c)) gs"
    by (simp add: list_all_iff)
  have "l2_norm (map (\<lambda>g. Num (real_of g * ?c)) gs) = ?c * l2_norm gs"
    by (rule l2_norm_scaled) (use pos in simp)
  also have "\<dots> = 1 / 2" using pos by simp
  finally have n: "l2_norm (map (\<lambda>g. Num (real_of g * ?c)) gs) = 1 / 2" .
  have f: "list_all finite_num (map (\<lambda>g. Num (real_of g * ?c)) gs)"
    by (simp add: list_all_iff)
  have "(let norm = jsqrt (foldl (\<lambda>sum g. jadd sum (jmul g g)) (Num 0) gs) in
             if jgt norm (Num (1 / 2))
             then (let scale = jdiv (Num (1 / 2)) norm in (key, map (\<lambda>g. jmul g scale) gs))
             else (key, gs)) = (key, map (\<lambda>g. jmul g (Num ?c)) gs)"
    using True pos by (simp add: norm_finite[OF fin] jgt_def Let_def)
  then have e: "(let norm = jsqrt (foldl (\<lambda>sum g. jadd sum (jmul g g)) (Num 0) gs) in
             if jgt norm (Num (1 / 2))
             then (let scale = jdiv (Num (1 / 2)) norm in (key, map (\<lambda>g. jmul g scale) gs))
             else (key, gs)) = (key, map (\<lambda>g. Num (real_of g * ?c)) gs)"
    by (simp only: m)
  from True have nle: "\<not> l2_norm gs \<le> 1 / 2" by simp
  from n have nl: "l2_norm (map (\<lambda>g. Num (real_of g * ?c)) gs) \<le> 1 / 2" by simp
  show ?thesis
    by (rule exI[of _ "map (\<lambda>g. Num (real_of g * ?c)) gs"]) (use e f n nl nle in blast)
next
  case False
  with fin show ?thesis
    by (simp add: norm_finite[OF fin] jgt_def Let_def)
qed

text \<open>
  A batch whose accumulated weight gradient is \<^verbatim>\<open>NaN\<close>: the bias table has no number for the
  output neuron, so the output, the delta and the gradient of the example are \<^verbatim>\<open>NaN\<close>.
\<close>

lemma nan_gradient_batch:
  "examples_loop
     \<lparr>p_layers = [\<lparr>num_neurons = 1, activation_function = Some ''linear''\<rparr>,
                  \<lparr>num_neurons = 1, activation_function = None\<rparr>],
      p_biases = 0, p_learningRate = Num 1, p_epochs = 1, p_batchSize = 1, p_l2Factor = Num 0,
      p_normalizedData = [\<lparr>input = [Num 1], target = [Num 0]\<rparr>], p_shuffle = (\<lambda>epoch xs. xs)\<rparr>
     [\<lparr>input = [Num 1], target = [Num 0]\<rparr>] [\<lparr>input = [Num 1], target = [Num 0]\<rparr>]
     \<lparr>bg_weights = [], bg_biases = [[Num 0], []]\<rparr>
     \<lparr>store = \<lparr>weightTables = (\<lambda>a. [])(1 := [(layerKey 0, [Num 1])]),
                biasTables = (\<lambda>a. [])(1 := [[Num 0], []]), nextWeights = 2, nextBiases = 2\<rparr>,
      currentWeights = 1, currentBiases = 1, weightVelocities = [(layerKey 0, [Num 0])],
      biasVelocities = [[Num 0], []], totalError = Num 0\<rparr> =
   (Inr \<lparr>bg_weights = [(layerKey 0, [NaN])], bg_biases = [[Num 0], []]\<rparr>,
    \<lparr>store = \<lparr>weightTables = (\<lambda>a. [])(1 := [(layerKey 0, [Num 1])]),
                biasTables = (\<lambda>a. [])(1 := [[Num 0], []]), nextWeights = 2, nextBiases = 2\<rparr>,
      currentWeights = 1, currentBiases = 1, weightVelocities = [(layerKey 0, [Num 0])],
      biasVelocities = [[Num 0], []], totalError = NaN\<rparr>)"
  by (simp add: eval_simps)

text \<open>
  C6, as the specification states it, fails for a vector that holds an infinity or
  \<^verbatim>\<open>NaN\<close>, as the accumulated gradient of the batch above does. The norm of
  \<open>(Infinity, 1)\<close> is \<^verbatim>\<open>Infinity\<close> and the scale \<open>0.5 / Infinity\<close> is \<open>0\<close>: the vector becomes
  \<open>(NaN, 0)\<close>, which is no multiple of it and whose norm is \<^verbatim>\<open>NaN\<close>, not a number that is
  at most \<open>0.5\<close>. The norm of \<open>(NaN, 3)\<close> is \<^verbatim>\<open>NaN\<close>, the test \<^verbatim>\<open>norm > maxNorm\<close> is false,
  and the vector is returned as it is.
\<close>

theorem clipping_nonfinite_counterexample:
  "clip_batch \<lparr>bg_weights = [(''layer0_1'', [PInf, Num 1])], bg_biases = [[Num 7]]\<rparr>
     = \<lparr>bg_weights = [(''layer0_1'', [NaN, Num 0])], bg_biases = [[Num 7]]\<rparr>
   \<and> computed_norm [NaN, Num 0] = NaN
   \<and> clip_batch \<lparr>bg_weights = [(''layer0_1'', [NaN, Num 3])], bg_biases = [[Num 7]]\<rparr>
     = \<lparr>bg_weights = [(''layer0_1'', [NaN, Num 3])], bg_biases = [[Num 7]]\<rparr>
   \<and> computed_norm [NaN, Num 3] = NaN
   \<and> \<not> jle NaN (Num (1 / 2))"
  by (simp add: clip_batch_def clipGradients_def computed_norm_def jle_def jeq_def jgt_def
      signed_inf_def Let_def)

text \<open>
  C6, amended. The clipping of a batch leaves the bias gradients as they are. It maps the
  weight gradient vector of a layer pair, when its numbers are finite and the sum of their
  squares is at most half the largest finite number, to a vector of norm at most \<open>0.5\<close>: a
  vector of greater norm is multiplied by \<open>0.5 / norm\<close> and has the norm \<open>0.5\<close>, a vector of
  norm at most \<open>0.5\<close> is returned as it is. The bound on the sum of the squares keeps the
  statement to the vectors whose norm the code computes as a finite number: beyond it the
  squares overflow, which the model of the numbers leaves out.
\<close>

theorem gradient_clipping:
  assumes "n < length (bg_weights bg)"
    and "bg_weights bg ! n = (key, gs)"
    and "list_all finite_num gs"
    and "2 * (\<Sum>g\<leftarrow>gs. (real_of g)\<^sup>2) \<le> max_value"
  shows "bg_biases (clip_batch bg) = bg_biases bg \<and>
         (\<exists>gs'. bg_weights (clip_batch bg) ! n = (key, gs') \<and>
            list_all finite_num gs' \<and> l2_norm gs' \<le> 1 / 2 \<and>
            (1 / 2 < l2_norm gs \<longrightarrow>
               l2_norm gs' = 1 / 2 \<and> gs' = map (\<lambda>g. Num (real_of g * (1 / 2 / l2_norm gs))) gs) \<and>
            (l2_norm gs \<le> 1 / 2 \<longrightarrow> gs' = gs))"
proof -
  from clip_entry[OF assms(3), of key] obtain gs' where
    "(let norm = jsqrt (foldl (\<lambda>sum g. jadd sum (jmul g g)) (Num 0) gs) in
             if jgt norm (Num (1 / 2))
             then (let scale = jdiv (Num (1 / 2)) norm in (key, map (\<lambda>g. jmul g scale) gs))
             else (key, gs)) = (key, gs')"
    "list_all finite_num gs'" "l2_norm gs' \<le> 1 / 2"
    "1 / 2 < l2_norm gs \<longrightarrow>
              l2_norm gs' = 1 / 2 \<and> gs' = map (\<lambda>g. Num (real_of g * (1 / 2 / l2_norm gs))) gs"
    "l2_norm gs \<le> 1 / 2 \<longrightarrow> gs' = gs"
    by blast
  moreover from this(1) assms(1,2) have "bg_weights (clip_batch bg) ! n = (key, gs')"
    by (simp add: clip_batch_def clipGradients_def)
  ultimately show ?thesis by (auto simp: clip_batch_def)
qed

theorem gradient_clipping_witness:
  "bg_biases (clip_batch \<lparr>bg_weights = [(''layer0_1'', [Num (3 / 5), Num (4 / 5)])], bg_biases = [[Num 7]]\<rparr>)
     = [[Num 7]] \<and>
   bg_weights (clip_batch \<lparr>bg_weights = [(''layer0_1'', [Num (3 / 5), Num (4 / 5)])], bg_biases = [[Num 7]]\<rparr>) ! 0
     = (''layer0_1'', [Num (3 / 10), Num (2 / 5)]) \<and>
   l2_norm [Num (3 / 5), Num (4 / 5)] = 1 \<and> l2_norm [Num (3 / 10), Num (2 / 5)] = 1 / 2"
proof -
  have n: "l2_norm [Num (3 / 5), Num (4 / 5)] = 1"
    by (simp add: l2_norm_def power2_eq_square)
  have m: "2 * (\<Sum>g\<leftarrow>[Num (3 / 5), Num (4 / 5)]. (real_of g)\<^sup>2) \<le> max_value"
    by (simp add: max_value_def power2_eq_square)
  from gradient_clipping [of 0 "\<lparr>bg_weights = [(''layer0_1'', [Num (3 / 5), Num (4 / 5)])], bg_biases = [[Num 7]]\<rparr>"
      "''layer0_1''" "[Num (3 / 5), Num (4 / 5)]"] m
  show ?thesis by (auto simp: n)
qed

section \<open>The tables of the caller\<close>

lemma example_step_frame:
  "example_step P batch example bg st = (r, st') \<Longrightarrow>
     store st' = store st \<and>
     currentWeights st' = currentWeights st \<and> currentBiases st' = currentBiases st \<and>
     weightVelocities st' = weightVelocities st \<and> biasVelocities st' = biasVelocities st"
  by (auto simp: example_step_def Let_def split: sum.splits)

lemma examples_loop_frame:
  "examples_loop P batch exs bg st = (r, st') \<Longrightarrow>
     store st' = store st \<and>
     currentWeights st' = currentWeights st \<and> currentBiases st' = currentBiases st \<and>
     weightVelocities st' = weightVelocities st \<and> biasVelocities st' = biasVelocities st"
proof (induction exs arbitrary: bg st)
  case Nil
  then show ?case by simp
next
  case (Cons example rest)
  obtain r1 st1 where s: "example_step P batch example bg st = (r1, st1)"
    by (cases "example_step P batch example bg st")
  note f = example_step_frame[OF s]
  show ?case
  proof (cases r1)
    case (Inl e)
    with Cons.prems s f show ?thesis by simp
  next
    case (Inr bg')
    with Cons.prems s have "examples_loop P batch rest bg' st1 = (r, st')" by simp
    from Cons.IH[OF this] f show ?thesis by simp
  qed
qed

text \<open>
  The update of the weights assigns to the table that \<^verbatim>\<open>currentWeights\<close> refers to and to
  no other; the update of the biases creates a table and assigns to none.
\<close>

lemma update_weights_keeps:
  assumes "update_weights momentum scaledLR l2 grads st = (r, st')" "keeps_tables s st"
  shows "keeps_tables s st'"
proof -
  note f = update_weights_frame[OF assms(1)]
  from assms(2) have "\<forall>a<nextWeights s. a \<noteq> currentWeights st"
    by (auto simp: keeps_tables_def)
  with f assms(2) show ?thesis by (simp add: keeps_tables_def)
qed

lemma update_biases_keeps:
  assumes "update_biases momentum scaledLR bb st = (r, st')" "keeps_tables s st"
  shows "keeps_tables s st'"
proof -
  note f = update_biases_frame[OF assms(1)]
  from f assms(2) show ?thesis by (auto simp: keeps_tables_def)
qed

lemma update_parameters_keeps:
  assumes a: "update_parameters momentum decayedLR l2 batch bg st = (r, st')"
    and k: "keeps_tables s st"
  shows "keeps_tables s st'"
proof -
  let ?lr = "jdiv decayedLR (Num (real (length batch)))"
  obtain r1 st1 where w: "update_weights momentum ?lr l2 (bg_weights bg) st = (r1, st1)"
    by (cases "update_weights momentum ?lr l2 (bg_weights bg) st")
  note k1 = update_weights_keeps[OF w k]
  show ?thesis
  proof (cases r1)
    case None
    with a w have "update_biases momentum ?lr (bg_biases bg) st1 = (r, st')"
      by (simp add: update_parameters_def Let_def)
    from update_biases_keeps[OF this k1] show ?thesis .
  next
    case (Some e)
    with a w k1 show ?thesis by (simp add: update_parameters_def Let_def)
  qed
qed

lemma batch_step_keeps:
  assumes a: "batch_step P momentum decayedLR batch st = (r, st')"
    and k: "keeps_tables s st"
  shows "keeps_tables s st'"
proof -
  let ?bg0 = "\<lparr>bg_weights = [],
                 bg_biases = map (\<lambda>layer. replicate (length layer) (Num 0))
                               (biasTables (store st) (p_biases P))\<rparr>"
  obtain r1 st1 where e: "examples_loop P batch batch ?bg0 st = (r1, st1)"
    by (cases "examples_loop P batch batch ?bg0 st")
  note f = examples_loop_frame[OF e]
  from f k have k1: "keeps_tables s st1" by (simp add: keeps_tables_def)
  show ?thesis
  proof (cases r1)
    case (Inl err)
    with a e k1 show ?thesis by (simp add: batch_step_def Let_def)
  next
    case (Inr bg)
    with a e have "update_parameters momentum decayedLR (p_l2Factor P) batch (clip_batch bg) st1 = (r, st')"
      by (simp add: batch_step_def Let_def)
    from update_parameters_keeps[OF this k1] show ?thesis .
  qed
qed

lemma batch_loop_keeps_aux:
  assumes "batch_loop P momentum decayedLR shuffledData i st = Some y"
  shows "keeps_tables s st \<longrightarrow> keeps_tables s (snd y)"
proof -
  have "keeps_tables s (snd (((((P, momentum), decayedLR), shuffledData), i), st)) \<longrightarrow>
        keeps_tables s (snd y)"
  proof (rule batch_loop.raw_induct
      [where Pa = "\<lambda>x y. keeps_tables s (snd x) \<longrightarrow> keeps_tables s (snd y)",
       OF _ assms], goal_cases)
    case (1 bl P momentum decayedLR shuffledData i st y)
    note IH = 1(1) and prems = 1(2)
    show ?case
    proof (cases "i < length shuffledData")
      case False
      with prems show ?thesis by auto
    next
      case True
      let ?batch = "take (min (i + p_batchSize P) (length shuffledData) - i) (drop i shuffledData)"
      obtain r1 st1 where b: "batch_step P momentum decayedLR ?batch st = (r1, st1)"
        by (cases "batch_step P momentum decayedLR ?batch st")
      show ?thesis
      proof (cases r1)
        case None
        with prems True b have "bl P momentum decayedLR shuffledData (i + p_batchSize P) st1 = Some y"
          by (simp add: Let_def)
        from IH[OF this] batch_step_keeps[OF b] show ?thesis by simp
      next
        case (Some e)
        with prems True b batch_step_keeps[OF b] show ?thesis by (auto simp: Let_def)
      qed
    qed
  qed
  then show ?thesis by simp
qed

lemma batch_loop_keeps:
  "batch_loop P momentum decayedLR shuffledData i st = Some (r, st') \<Longrightarrow>
     keeps_tables s st \<Longrightarrow> keeps_tables s st'"
  using batch_loop_keeps_aux[of P momentum decayedLR shuffledData i st "(r, st')" s] by simp

lemma epoch_loop_keeps:
  "epoch_loop P cb epoch st calls = Some (r, st', calls') \<Longrightarrow>
     keeps_tables s st \<Longrightarrow> keeps_tables s st'"
proof (induction "p_epochs P - epoch" arbitrary: epoch st calls)
  case 0
  then have "\<not> epoch < p_epochs P" by simp
  with "0.prems" show ?case by (simp add: epoch_loop.simps)
next
  case (Suc n)
  then have lt: "epoch < p_epochs P" by simp
  let ?st0 = "st\<lparr>totalError := Num 0\<rparr>"
  let ?m = "Num (9 / 10 + (1 - 9 / 10) * (real epoch / real (p_epochs P)))"
  let ?lr = "jmul (p_learningRate P) (Num ((998 / 1000) ^ epoch))"
  let ?bl = "batch_loop P ?m ?lr (p_shuffle P epoch (p_normalizedData P)) 0 ?st0"
  from Suc.prems(1) lt obtain r1 st1 where b: "?bl = Some (r1, st1)"
    by (subst (asm) epoch_loop.simps) (auto simp: Let_def split: option.splits)
  from Suc.prems(2) have "keeps_tables s ?st0" by (simp add: keeps_tables_def)
  from batch_loop_keeps[OF b this] have k1: "keeps_tables s st1" .
  show ?case
  proof (cases r1)
    case (Some e)
    with Suc.prems(1) lt b have "st' = st1"
      by (subst (asm) epoch_loop.simps) (simp add: Let_def)
    with k1 show ?thesis by simp
  next
    case None
    let ?avg = "jdiv (totalError st1) (Num (real (length (p_normalizedData P))))"
    let ?calls = "(case cb of
                          None \<Rightarrow> calls
                        | Some callback \<Rightarrow>
                            (let displayWeights =
                                   formatWeightsForDisplay
                                     (weightTables (store st1) (currentWeights st1));
                                 biasTable = biasTables (store st1) (currentBiases st1)
                             in calls @ [(epoch, ?avg, displayWeights, biasTable,
                                          callback epoch ?avg displayWeights biasTable)]))"
    show ?thesis
    proof (cases "jlt ?avg (Num (1 / 10000))")
      case True
      with Suc.prems(1) lt b None have "st' = st1"
        by (subst (asm) epoch_loop.simps) (simp add: Let_def)
      with k1 show ?thesis by simp
    next
      case False
      with Suc.prems(1) lt b None have "epoch_loop P cb (epoch + 1) st1 ?calls = Some (r, st', calls')"
        by (subst (asm) epoch_loop.simps) (simp add: Let_def)
      moreover from Suc.hyps(2) have "n = p_epochs P - (epoch + 1)" by simp
      ultimately show ?thesis using k1 Suc.hyps(1) by blast
    qed
  qed
qed

text \<open>
  The state in which the loop over the epochs starts: the two copies are the tables at the
  next references of the store of the call.
\<close>

lemma initial_state_keeps:
  "keeps_tables s
     \<lparr>store = snd (newBiases bt (snd (newWeights wt s))),
      currentWeights = fst (newWeights wt s),
      currentBiases = fst (newBiases bt (snd (newWeights wt s))),
      weightVelocities = wv, biasVelocities = bv, totalError = e\<rparr>"
  by (simp add: keeps_tables_def)

lemma trainNetwork_keeps:
  assumes "trainNetwork layers weights biases trainingData opts shuffle s = Some (outcome, st, calls)"
  shows "keeps_tables s st"
proof -
  define wt where "wt = json_copy_weights (weightTables s weights)"
  define bt where "bt = json_copy_biases (biasTables (snd (newWeights wt s)) biases)"
  define st0 where "st0 =
     \<lparr>store = snd (newBiases bt (snd (newWeights wt s))),
      currentWeights = fst (newWeights wt s),
      currentBiases = fst (newBiases bt (snd (newWeights wt s))),
      weightVelocities =
        map (\<lambda>(key, vals). (key, replicate (length vals) (Num 0)))
          (weightTables (snd (newBiases bt (snd (newWeights wt s)))) weights),
      biasVelocities =
        map (\<lambda>layer. replicate (length layer) (Num 0))
          (biasTables (snd (newBiases bt (snd (newWeights wt s)))) biases),
      totalError = Num 0\<rparr>"
  have k0: "keeps_tables s st0" unfolding st0_def by (rule initial_state_keeps)
  from assms have "st = st0 \<or> (\<exists>P cb r. epoch_loop P cb 0 st0 [] = Some (r, st, calls))"
    unfolding trainNetwork_def Let_def st0_def bt_def wt_def
    by (auto split: sum.splits option.splits prod.splits)
  then show ?thesis
  proof
    assume "st = st0"
    with k0 show ?thesis by simp
  next
    assume "\<exists>P cb r. epoch_loop P cb 0 st0 [] = Some (r, st, calls)"
    then obtain P cb r where "epoch_loop P cb 0 st0 [] = Some (r, st, calls)" by blast
    from epoch_loop_keeps[OF this k0] show ?thesis .
  qed
qed

text \<open>
  C9. A call of \<^verbatim>\<open>trainNetwork\<close> is given references to the weight table and the bias table
  of the caller, two objects of the store of the call. Whenever the call finishes, by
  returning a result or by throwing, the two objects are as they were at the call, and the
  tables that \<^verbatim>\<open>currentWeights\<close> and \<^verbatim>\<open>currentBiases\<close> refer to, which the run assigns to and
  hands to the result and to the callback, are other objects than the caller's.
\<close>

theorem caller_tables_unchanged:
  assumes "trainNetwork layers weights biases trainingData opts shuffle s = Some (outcome, st, calls)"
    and "weights < nextWeights s"
    and "biases < nextBiases s"
  shows "weightTables (store st) weights = weightTables s weights \<and>
         biasTables (store st) biases = biasTables s biases \<and>
         currentWeights st \<noteq> weights \<and> currentBiases st \<noteq> biases"
  using trainNetwork_keeps[OF assms(1)] assms(2,3) by (auto simp: keeps_tables_def)

theorem caller_tables_unchanged_witness:
  "(\<exists>res st calls.
      trainNetwork
        [\<lparr>num_neurons = 1, activation_function = Some ''linear''\<rparr>,
         \<lparr>num_neurons = 1, activation_function = None\<rparr>]
        0 0
        [\<lparr>input = [Num 3], target = [Num 5]\<rparr>]
        \<lparr>learningRate = Some (Num 1), epochs = Some 1, batchSize = Some 2,
         l2Factor = Some (Num 1), onProgress = Some (\<lambda>epoch err w b. True)\<rparr>
        (\<lambda>epoch xs. xs)
        (caller_store [(layerKey 0, [Num 1])] [[Num 0], [Num 1]]) = Some (Inr res, st, calls) \<and>
      weightTables (store st) 0 = [(layerKey 0, [Num 1])] \<and>
      biasTables (store st) 0 = [[Num 0], [Num 1]] \<and>
      weightTables (store st) (currentWeights st) = [(layerKey 0, [Num 0])] \<and>
      biasTables (store st) (currentBiases st) = [[Num 0], [Num 0]] \<and>
      currentWeights st \<noteq> 0 \<and> currentBiases st \<noteq> 0)
   \<and> (\<exists>st calls.
      trainNetwork
        [\<lparr>num_neurons = 0, activation_function = Some ''linear''\<rparr>,
         \<lparr>num_neurons = 1, activation_function = Some ''linear''\<rparr>,
         \<lparr>num_neurons = 1, activation_function = None\<rparr>]
        0 0
        [\<lparr>input = [], target = [Num 5]\<rparr>]
        \<lparr>learningRate = Some (Num 1), epochs = Some 1, batchSize = Some 2,
         l2Factor = Some (Num 1), onProgress = Some (\<lambda>epoch err w b. True)\<rparr>
        (\<lambda>epoch xs. xs)
        (caller_store [(''layer1_2'', [Num 1])] [[], [Num 0], [Num 1]]) = Some (Inl TypeError, st, calls) \<and>
      weightTables (store st) 0 = [(''layer1_2'', [Num 1])] \<and>
      biasTables (store st) 0 = [[], [Num 0], [Num 1]] \<and>
      weightTables (store st) (currentWeights st) = [(''layer1_2'', [Num 0])] \<and>
      currentWeights st \<noteq> 0 \<and> currentBiases st \<noteq> 0)"
proof -
  note r = single_example_run [of True]
  note e = aborting_run
  from caller_tables_unchanged [OF r] caller_tables_unchanged [OF e] r e
  show ?thesis by (simp add: caller_store_def)
qed

section \<open>The progress callback\<close>

lemma epoch_loop_callback:
  fixes cb1 :: "nat \<Rightarrow> jsnum \<Rightarrow> Weights \<Rightarrow> jsnum list list \<Rightarrow> 'a"
    and cb2 :: "nat \<Rightarrow> jsnum \<Rightarrow> Weights \<Rightarrow> jsnum list list \<Rightarrow> 'b"
  shows "map call_args calls1 = map call_args calls2 \<Longrightarrow>
     map_option (\<lambda>(e, st, calls). (e, st, map call_args calls)) (epoch_loop P (Some cb1) epoch st calls1) =
     map_option (\<lambda>(e, st, calls). (e, st, map call_args calls)) (epoch_loop P (Some cb2) epoch st calls2)"
proof (induction "p_epochs P - epoch" arbitrary: epoch st calls1 calls2)
  case 0
  then have "\<not> epoch < p_epochs P" by simp
  with "0.prems" show ?case by (simp add: epoch_loop.simps)
next
  case (Suc n)
  then have lt: "epoch < p_epochs P" by simp
  let ?st0 = "st\<lparr>totalError := Num 0\<rparr>"
  let ?m = "Num (9 / 10 + (1 - 9 / 10) * (real epoch / real (p_epochs P)))"
  let ?lr = "jmul (p_learningRate P) (Num ((998 / 1000) ^ epoch))"
  let ?bl = "batch_loop P ?m ?lr (p_shuffle P epoch (p_normalizedData P)) 0 ?st0"
  show ?case
  proof (cases ?bl)
    case None
    with lt show ?thesis
      by (subst epoch_loop.simps, subst (2) epoch_loop.simps) (simp add: Let_def)
  next
    case (Some a)
    obtain r1 st1 where a: "a = (r1, st1)" by (cases a)
    show ?thesis
    proof (cases r1)
      case (Some e)
      with lt \<open>?bl = Some a\<close> a Suc.prems show ?thesis
        by (subst epoch_loop.simps, subst (2) epoch_loop.simps) (simp add: Let_def)
    next
      case None
      let ?avg = "jdiv (totalError st1) (Num (real (length (p_normalizedData P))))"
      let ?dw = "formatWeightsForDisplay (weightTables (store st1) (currentWeights st1))"
      let ?bt = "biasTables (store st1) (currentBiases st1)"
      let ?c1 = "calls1 @ [(epoch, ?avg, ?dw, ?bt, cb1 epoch ?avg ?dw ?bt)]"
      let ?c2 = "calls2 @ [(epoch, ?avg, ?dw, ?bt, cb2 epoch ?avg ?dw ?bt)]"
      have c: "map call_args ?c1 = map call_args ?c2"
        using Suc.prems by (simp add: call_args_def)
      show ?thesis
      proof (cases "jlt ?avg (Num (1 / 10000))")
        case True
        with lt \<open>?bl = Some a\<close> a None c show ?thesis
          by (subst epoch_loop.simps, subst (2) epoch_loop.simps) (simp add: Let_def)
      next
        case False
        from Suc.hyps(2) have n: "n = p_epochs P - (epoch + 1)" by simp
        have e1: "epoch_loop P (Some cb1) epoch st calls1 = epoch_loop P (Some cb1) (epoch + 1) st1 ?c1"
          using lt \<open>?bl = Some a\<close> a None False by (subst epoch_loop.simps) (simp add: Let_def)
        have e2: "epoch_loop P (Some cb2) epoch st calls2 = epoch_loop P (Some cb2) (epoch + 1) st1 ?c2"
          using lt \<open>?bl = Some a\<close> a None False by (subst epoch_loop.simps) (simp add: Let_def)
        from Suc.hyps(1)[OF n c] e1 e2 show ?thesis by simp
      qed
    qed
  qed
qed

lemma epoch_loop_exit:
  "epoch_loop P (Some cb) epoch st calls = Some (None, st', calls') \<Longrightarrow> epoch \<le> p_epochs P \<Longrightarrow>
     \<exists>new. calls' = calls @ new \<and> map call_epoch new = [epoch..<epoch + length new] \<and>
       epoch + length new \<le> p_epochs P \<and>
       (epoch + length new < p_epochs P \<longrightarrow> new \<noteq> [] \<and> jlt (call_error (last new)) (Num (1 / 10000))) \<and>
       (\<forall>c\<in>set (butlast new). \<not> jlt (call_error c) (Num (1 / 10000))) \<and>
       (new \<noteq> [] \<longrightarrow> call_error (last new) =
           jdiv (totalError st') (Num (real (length (p_normalizedData P)))))"
proof (induction "p_epochs P - epoch" arbitrary: epoch st calls)
  case 0
  then have "\<not> epoch < p_epochs P" by simp
  with "0.prems" have "calls' = calls" "epoch = p_epochs P" by (simp_all add: epoch_loop.simps)
  then show ?case by simp
next
  case (Suc n)
  then have lt: "epoch < p_epochs P" by simp
  let ?st0 = "st\<lparr>totalError := Num 0\<rparr>"
  let ?m = "Num (9 / 10 + (1 - 9 / 10) * (real epoch / real (p_epochs P)))"
  let ?lr = "jmul (p_learningRate P) (Num ((998 / 1000) ^ epoch))"
  let ?bl = "batch_loop P ?m ?lr (p_shuffle P epoch (p_normalizedData P)) 0 ?st0"
  from Suc.prems(1) lt obtain st1 where b: "?bl = Some (None, st1)"
    by (subst (asm) epoch_loop.simps) (auto simp: Let_def split: option.splits)
  let ?avg = "jdiv (totalError st1) (Num (real (length (p_normalizedData P))))"
  let ?dw = "formatWeightsForDisplay (weightTables (store st1) (currentWeights st1))"
  let ?bt = "biasTables (store st1) (currentBiases st1)"
  let ?c = "(epoch, ?avg, ?dw, ?bt, cb epoch ?avg ?dw ?bt)"
  show ?case
  proof (cases "jlt ?avg (Num (1 / 10000))")
    case True
    with Suc.prems(1) lt b have "st' = st1" "calls' = calls @ [?c]"
      by (subst (asm) epoch_loop.simps, simp add: Let_def)+
    with True lt show ?thesis
      by (intro exI[of _ "[?c]"]) (simp add: call_epoch_def call_error_def)
  next
    case False
    with Suc.prems(1) lt b have r: "epoch_loop P (Some cb) (epoch + 1) st1 (calls @ [?c]) = Some (None, st', calls')"
      by (subst (asm) epoch_loop.simps) (simp add: Let_def)
    from Suc.hyps(2) have n: "n = p_epochs P - (epoch + 1)" by simp
    from lt have le: "epoch + 1 \<le> p_epochs P" by simp
    from Suc.hyps(1)[OF n r le] obtain new where new:
      "calls' = (calls @ [?c]) @ new" "map call_epoch new = [epoch + 1..<epoch + 1 + length new]"
      "epoch + 1 + length new \<le> p_epochs P"
      "epoch + 1 + length new < p_epochs P \<longrightarrow> new \<noteq> [] \<and> jlt (call_error (last new)) (Num (1 / 10000))"
      "\<forall>c\<in>set (butlast new). \<not> jlt (call_error c) (Num (1 / 10000))"
      "new \<noteq> [] \<longrightarrow> call_error (last new) = jdiv (totalError st') (Num (real (length (p_normalizedData P))))"
      by blast
    have st1: "new = [] \<longrightarrow> st' = st1"
    proof
      assume "new = []"
      with new(4) have "\<not> epoch + 1 < p_epochs P" by auto
      with r show "st' = st1" by (simp add: epoch_loop.simps)
    qed
    have ce: "call_error ?c = ?avg" by (simp add: call_error_def)
    have u: "[epoch..<epoch + length (?c # new)] = epoch # [epoch + 1..<epoch + 1 + length new]"
      by (subst upt_rec) simp
    have "map call_epoch (?c # new) = [epoch..<epoch + length (?c # new)]"
      unfolding u using new(2) by (simp add: call_epoch_def)
    moreover have "\<forall>c\<in>set (butlast (?c # new)). \<not> jlt (call_error c) (Num (1 / 10000))"
      using new(5) False ce by (cases new) auto
    moreover have "epoch + length (?c # new) < p_epochs P \<longrightarrow>
        jlt (call_error (last (?c # new))) (Num (1 / 10000))"
      using new(4) by auto
    moreover have "call_error (last (?c # new)) = jdiv (totalError st') (Num (real (length (p_normalizedData P))))"
      using new(6) st1 ce by (cases "new = []") auto
    ultimately show ?thesis using new(1,3)
      by (intro exI[of _ "?c # new"]) simp
  qed
qed

lemma run_outcome_cong:
  fixes x1 :: "(error option \<times> train_state \<times> 'a progress_call list) option"
    and x2 :: "(error option \<times> train_state \<times> 'b progress_call list) option"
  assumes "map_option (\<lambda>(e, st, calls). (e, st, map call_args calls)) x1 =
           map_option (\<lambda>(e, st, calls). (e, st, map call_args calls)) x2"
  shows "run_outcome (case x1 of None \<Rightarrow> None
                      | Some (Some e, st, calls) \<Rightarrow> Some (Inl e, st, calls)
                      | Some (None, st, calls) \<Rightarrow> Some (Inr (R st), st, calls)) =
         run_outcome (case x2 of None \<Rightarrow> None
                      | Some (Some e, st, calls) \<Rightarrow> Some (Inl e, st, calls)
                      | Some (None, st, calls) \<Rightarrow> Some (Inr (R st), st, calls))"
proof (cases x1)
  case None
  with assms have "x2 = None" by simp
  with None show ?thesis by (simp add: run_outcome_def)
next
  case (Some a)
  obtain e1 st1 c1 where a: "a = (e1, st1, c1)" by (cases a)
  from assms Some obtain b where b: "x2 = Some b" by (cases x2) auto
  obtain e2 st2 c2 where b2: "b = (e2, st2, c2)" by (cases b)
  from assms Some a b b2 have "e2 = e1" "st2 = st1" "map call_args c2 = map call_args c1" by simp_all
  with Some a b b2 show ?thesis by (cases e1) (simp_all add: run_outcome_def)
qed

text \<open>
  C8. Two runs that differ only in the callback return the same value or throw the same
  exception, end in the same state, and call the callback the same number of times with the
  same arguments: the value that the callback returns is not used. A run that returns has
  executed the epochs \<open>0, 1, \<dots>\<close> in order, at most \<^verbatim>\<open>epochs\<close> of them; when there are fewer,
  the mean error of the last one is below \<open>10\<^sup>-\<^sup>4\<close>, and the mean error of no earlier epoch
  is.
\<close>

theorem callback_return_ignored:
  fixes cb1 :: "nat \<Rightarrow> jsnum \<Rightarrow> Weights \<Rightarrow> jsnum list list \<Rightarrow> 'a"
    and cb2 :: "nat \<Rightarrow> jsnum \<Rightarrow> Weights \<Rightarrow> jsnum list list \<Rightarrow> 'b"
  shows "run_outcome (trainNetwork layers weights biases trainingData
            \<lparr>learningRate = lr, epochs = ep, batchSize = bs, l2Factor = l2,
             onProgress = Some cb1\<rparr> shuffle s) =
         run_outcome (trainNetwork layers weights biases trainingData
            \<lparr>learningRate = lr, epochs = ep, batchSize = bs, l2Factor = l2,
             onProgress = Some cb2\<rparr> shuffle s) \<and>
         (\<forall>res st calls.
            trainNetwork layers weights biases trainingData
              \<lparr>learningRate = lr, epochs = ep, batchSize = bs, l2Factor = l2,
               onProgress = Some cb1\<rparr> shuffle s = Some (Inr res, st, calls) \<longrightarrow>
            map call_epoch calls = [0..<length calls] \<and>
            length calls \<le> (case ep of None \<Rightarrow> 200 | Some n \<Rightarrow> n) \<and>
            (length calls < (case ep of None \<Rightarrow> 200 | Some n \<Rightarrow> n) \<longrightarrow>
               jlt (r_error res) (Num (1 / 10000))) \<and>
            (\<forall>c\<in>set (butlast calls). \<not> jlt (call_error c) (Num (1 / 10000))) \<and>
            (calls \<noteq> [] \<longrightarrow> call_error (last calls) = r_error res))"
proof
  show "run_outcome (trainNetwork layers weights biases trainingData
            \<lparr>learningRate = lr, epochs = ep, batchSize = bs, l2Factor = l2,
             onProgress = Some cb1\<rparr> shuffle s) =
         run_outcome (trainNetwork layers weights biases trainingData
            \<lparr>learningRate = lr, epochs = ep, batchSize = bs, l2Factor = l2,
             onProgress = Some cb2\<rparr> shuffle s)"
  proof (cases "findBounds (map input trainingData)")
    case (Inl e)
    then show ?thesis by (simp add: trainNetwork_def run_outcome_def Let_def)
  next
    case (Inr ib)
    obtain inMins inMaxs where ib: "ib = (inMins, inMaxs)" by (cases ib)
    show ?thesis
    proof (cases "findBounds (map target trainingData)")
      case (Inl e)
      with Inr ib show ?thesis by (simp add: trainNetwork_def run_outcome_def Let_def)
    next
      case (Inr tb)
      obtain tgMins tgMaxs where tb: "tb = (tgMins, tgMaxs)" by (cases tb)
      have c: "map call_args ([] :: 'a progress_call list) = map call_args ([] :: 'b progress_call list)"
        by simp
      show ?thesis
        unfolding trainNetwork_def Let_def
        using \<open>findBounds (map input trainingData) = Inr ib\<close> ib Inr tb
        by (simp del: map_option_case add: run_outcome_cong[OF epoch_loop_callback[OF c]])
    qed
  qed
next
  show "\<forall>res st calls.
            trainNetwork layers weights biases trainingData
              \<lparr>learningRate = lr, epochs = ep, batchSize = bs, l2Factor = l2,
               onProgress = Some cb1\<rparr> shuffle s = Some (Inr res, st, calls) \<longrightarrow>
            map call_epoch calls = [0..<length calls] \<and>
            length calls \<le> (case ep of None \<Rightarrow> 200 | Some n \<Rightarrow> n) \<and>
            (length calls < (case ep of None \<Rightarrow> 200 | Some n \<Rightarrow> n) \<longrightarrow>
               jlt (r_error res) (Num (1 / 10000))) \<and>
            (\<forall>c\<in>set (butlast calls). \<not> jlt (call_error c) (Num (1 / 10000))) \<and>
            (calls \<noteq> [] \<longrightarrow> call_error (last calls) = r_error res)"
  proof (intro allI impI)
    fix res st calls
    assume a: "trainNetwork layers weights biases trainingData
              \<lparr>learningRate = lr, epochs = ep, batchSize = bs, l2Factor = l2,
               onProgress = Some cb1\<rparr> shuffle s = Some (Inr res, st, calls)"
    let ?eps = "case ep of None \<Rightarrow> 200 | Some n \<Rightarrow> n"
    from a obtain inMins inMaxs where ib: "findBounds (map input trainingData) = Inr (inMins, inMaxs)"
      by (cases "findBounds (map input trainingData)") (auto simp: trainNetwork_def Let_def)
    from a ib obtain tgMins tgMaxs where tb: "findBounds (map target trainingData) = Inr (tgMins, tgMaxs)"
      by (cases "findBounds (map target trainingData)") (auto simp: trainNetwork_def Let_def)
    define P where "P = \<lparr>p_layers = layers, p_biases = biases,
        p_learningRate = (case lr of None \<Rightarrow> Num (1 / 100) | Some x \<Rightarrow> x),
        p_epochs = ?eps, p_batchSize = (case bs of None \<Rightarrow> 32 | Some n \<Rightarrow> n),
        p_l2Factor = (case l2 of None \<Rightarrow> Num (5 / 100000) | Some x \<Rightarrow> x),
        p_normalizedData = map (\<lambda>d. \<lparr>input = normalizePoint (input d) inMins inMaxs,
                                   target = normalizePoint (target d) tgMins tgMaxs\<rparr>) trainingData,
        p_shuffle = shuffle\<rparr>"
    define wt where "wt = json_copy_weights (weightTables s weights)"
    define bt where "bt = json_copy_biases (biasTables (snd (newWeights wt s)) biases)"
    define st0 where "st0 =
       \<lparr>store = snd (newBiases bt (snd (newWeights wt s))),
        currentWeights = fst (newWeights wt s),
        currentBiases = fst (newBiases bt (snd (newWeights wt s))),
        weightVelocities =
          map (\<lambda>(key, vals). (key, replicate (length vals) (Num 0)))
            (weightTables (snd (newBiases bt (snd (newWeights wt s)))) weights),
        biasVelocities =
          map (\<lambda>layer. replicate (length layer) (Num 0))
            (biasTables (snd (newBiases bt (snd (newWeights wt s)))) biases),
        totalError = Num 0\<rparr>"
    have P: "p_epochs P = ?eps" by (simp add: P_def)
    have eq: "trainNetwork layers weights biases trainingData
              \<lparr>learningRate = lr, epochs = ep, batchSize = bs, l2Factor = l2,
               onProgress = Some cb1\<rparr> shuffle s =
          (case epoch_loop P (Some cb1) 0 st0 [] of
                        None \<Rightarrow> None
                      | Some (Some e, st, calls) \<Rightarrow> Some (Inl e, st, calls)
                      | Some (None, st, calls) \<Rightarrow>
                          Some (Inr \<lparr>r_weights = weightTables (store st) (currentWeights st),
                                     r_displayWeights =
                                       formatWeightsForDisplay
                                         (weightTables (store st) (currentWeights st)),
                                     r_biases = biasTables (store st) (currentBiases st),
                                     r_error = jdiv (totalError st)
                                                 (Num (real (length (p_normalizedData P)))),
                                     r_normalization =
                                       \<lparr>inputMins = inMins, inputMaxs = inMaxs,
                                        targetMins = tgMins, targetMaxs = tgMaxs\<rparr>\<rparr>,
                                st, calls))"
      unfolding trainNetwork_def Let_def P_def st0_def bt_def wt_def
      by (simp add: ib tb cong: option.case_cong)
    from a[unfolded eq] have run: "epoch_loop P (Some cb1) 0 st0 [] = Some (None, st, calls)"
      and err: "r_error res = jdiv (totalError st) (Num (real (length (p_normalizedData P))))"
      by (auto split: option.splits prod.splits)
    from epoch_loop_exit[OF run] obtain new where new:
      "calls = [] @ new" "map call_epoch new = [0..<0 + length new]"
      "0 + length new \<le> p_epochs P"
      "0 + length new < p_epochs P \<longrightarrow> new \<noteq> [] \<and> jlt (call_error (last new)) (Num (1 / 10000))"
      "\<forall>c\<in>set (butlast new). \<not> jlt (call_error c) (Num (1 / 10000))"
      "new \<noteq> [] \<longrightarrow> call_error (last new) = jdiv (totalError st) (Num (real (length (p_normalizedData P))))"
      by auto
    then show "map call_epoch calls = [0..<length calls] \<and>
            length calls \<le> ?eps \<and>
            (length calls < ?eps \<longrightarrow> jlt (r_error res) (Num (1 / 10000))) \<and>
            (\<forall>c\<in>set (butlast calls). \<not> jlt (call_error c) (Num (1 / 10000))) \<and>
            (calls \<noteq> [] \<longrightarrow> call_error (last calls) = r_error res)"
      using P err by auto
  qed
qed

theorem callback_return_ignored_witness:
  "run_outcome (trainNetwork
     [\<lparr>num_neurons = 1, activation_function = Some ''linear''\<rparr>,
      \<lparr>num_neurons = 1, activation_function = None\<rparr>]
     0 0
     [\<lparr>input = [Num 3], target = [Num 5]\<rparr>]
     \<lparr>learningRate = Some (Num 1), epochs = Some 1, batchSize = Some 2,
      l2Factor = Some (Num 1), onProgress = Some (\<lambda>epoch err w b. True)\<rparr>
     (\<lambda>epoch xs. xs)
     (caller_store [(layerKey 0, [Num 1])] [[Num 0], [Num 1]])) =
   run_outcome (trainNetwork
     [\<lparr>num_neurons = 1, activation_function = Some ''linear''\<rparr>,
      \<lparr>num_neurons = 1, activation_function = None\<rparr>]
     0 0
     [\<lparr>input = [Num 3], target = [Num 5]\<rparr>]
     \<lparr>learningRate = Some (Num 1), epochs = Some 1, batchSize = Some 2,
      l2Factor = Some (Num 1), onProgress = Some (\<lambda>epoch err w b. False)\<rparr>
     (\<lambda>epoch xs. xs)
     (caller_store [(layerKey 0, [Num 1])] [[Num 0], [Num 1]]))
   \<and> trainNetwork
     [\<lparr>num_neurons = 1, activation_function = Some ''linear''\<rparr>,
      \<lparr>num_neurons = 1, activation_function = None\<rparr>]
     0 0
     [\<lparr>input = [Num 3], target = [Num 5]\<rparr>]
     \<lparr>learningRate = Some (Num 1), epochs = Some 1, batchSize = Some 2,
      l2Factor = Some (Num 1), onProgress = Some (\<lambda>epoch err w b. True)\<rparr>
     (\<lambda>epoch xs. xs)
     (caller_store [(layerKey 0, [Num 1])] [[Num 0], [Num 1]]) =
     Some (Inr \<lparr>r_weights = [(layerKey 0, [Num 0])],
              r_displayWeights = [(layerKey 0, [Num 0])],
              r_biases = [[Num 0], [Num 0]], r_error = Num (11 / 10),
              r_normalization =
                \<lparr>inputMins = [Num 3], inputMaxs = [Num 3],
                 targetMins = [Num 5], targetMaxs = [Num 5]\<rparr>\<rparr>,
        \<lparr>store =
           \<lparr>weightTables = (\<lambda>a. [])(0 := [(layerKey 0, [Num 1])], 1 := [(layerKey 0, [Num 0])]),
            biasTables = (\<lambda>a. [])(0 := [[Num 0], [Num 1]], 1 := [[Num 0], [Num 1]],
                                      2 := [[Num 0], [Num 0]]),
            nextWeights = 2, nextBiases = 3\<rparr>,
         currentWeights = 1, currentBiases = 2,
         weightVelocities = [(layerKey 0, [Num (- 1)])],
         biasVelocities = [[Num 0], [Num (- 1)]], totalError = Num (11 / 10)\<rparr>,
        [(0, Num (11 / 10), [(layerKey 0, [Num 0])], [[Num 0], [Num 0]], True)])
   \<and> map call_epoch [(0, Num (11 / 10), [(layerKey 0, [Num 0])], [[Num 0], [Num 0]], True)] = [0..<1]
   \<and> call_error (last [(0, Num (11 / 10), [(layerKey 0, [Num 0])], [[Num 0], [Num 0]], True)]) = Num (11 / 10)"
proof -
  have r: "trainNetwork
     [\<lparr>num_neurons = 1, activation_function = Some ''linear''\<rparr>,
      \<lparr>num_neurons = 1, activation_function = None\<rparr>]
     0 0
     [\<lparr>input = [Num 3], target = [Num 5]\<rparr>]
     \<lparr>learningRate = Some (Num 1), epochs = Some 1, batchSize = Some 2,
      l2Factor = Some (Num 1), onProgress = Some (\<lambda>epoch err w b. True)\<rparr>
     (\<lambda>epoch xs. xs)
     (caller_store [(layerKey 0, [Num 1])] [[Num 0], [Num 1]]) =
     Some (Inr \<lparr>r_weights = [(layerKey 0, [Num 0])],
              r_displayWeights = [(layerKey 0, [Num 0])],
              r_biases = [[Num 0], [Num 0]], r_error = Num (11 / 10),
              r_normalization =
                \<lparr>inputMins = [Num 3], inputMaxs = [Num 3],
                 targetMins = [Num 5], targetMaxs = [Num 5]\<rparr>\<rparr>,
        \<lparr>store =
           \<lparr>weightTables = (\<lambda>a. [])(0 := [(layerKey 0, [Num 1])], 1 := [(layerKey 0, [Num 0])]),
            biasTables = (\<lambda>a. [])(0 := [[Num 0], [Num 1]], 1 := [[Num 0], [Num 1]],
                                      2 := [[Num 0], [Num 0]]),
            nextWeights = 2, nextBiases = 3\<rparr>,
         currentWeights = 1, currentBiases = 2,
         weightVelocities = [(layerKey 0, [Num (- 1)])],
         biasVelocities = [[Num 0], [Num (- 1)]], totalError = Num (11 / 10)\<rparr>,
        [(0, Num (11 / 10), [(layerKey 0, [Num 0])], [[Num 0], [Num 0]], True)])"
    by (rule single_example_run)
  note t = callback_return_ignored [where layers = "[\<lparr>num_neurons = 1, activation_function = Some ''linear''\<rparr>,
      \<lparr>num_neurons = 1, activation_function = None\<rparr>]"
      and weights = 0 and biases = 0
      and s = "caller_store [(layerKey 0, [Num 1])] [[Num 0], [Num 1]]"
      and trainingData = "[\<lparr>input = [Num 3], target = [Num 5]\<rparr>]"
      and lr = "Some (Num 1)" and ep = "Some 1" and bs = "Some 2" and ?l2.0 = "Some (Num 1)"
      and ?cb1.0 = "\<lambda>epoch err w b. True" and ?cb2.0 = "\<lambda>epoch err w b. False"
      and shuffle = "\<lambda>epoch xs. xs"]
  from t have "run_outcome (trainNetwork
     [\<lparr>num_neurons = 1, activation_function = Some ''linear''\<rparr>,
      \<lparr>num_neurons = 1, activation_function = None\<rparr>]
     0 0
     [\<lparr>input = [Num 3], target = [Num 5]\<rparr>]
     \<lparr>learningRate = Some (Num 1), epochs = Some 1, batchSize = Some 2,
      l2Factor = Some (Num 1), onProgress = Some (\<lambda>epoch err w b. True)\<rparr>
     (\<lambda>epoch xs. xs)
     (caller_store [(layerKey 0, [Num 1])] [[Num 0], [Num 1]])) =
   run_outcome (trainNetwork
     [\<lparr>num_neurons = 1, activation_function = Some ''linear''\<rparr>,
      \<lparr>num_neurons = 1, activation_function = None\<rparr>]
     0 0
     [\<lparr>input = [Num 3], target = [Num 5]\<rparr>]
     \<lparr>learningRate = Some (Num 1), epochs = Some 1, batchSize = Some 2,
      l2Factor = Some (Num 1), onProgress = Some (\<lambda>epoch err w b. False)\<rparr>
     (\<lambda>epoch xs. xs)
     (caller_store [(layerKey 0, [Num 1])] [[Num 0], [Num 1]]))"
    by (rule conjunct1)
  moreover from t r have "map call_epoch [(0, Num (11 / 10), [(layerKey 0, [Num 0])], [[Num 0], [Num 0]], True)] = [0..<length [(0, Num (11 / 10), [(layerKey 0, [Num 0])], [[Num 0], [Num 0]], True)]]
     \<and> call_error (last [(0, Num (11 / 10), [(layerKey 0, [Num 0])], [[Num 0], [Num 0]], True)]) = Num (11 / 10)"
    by simp
  ultimately show ?thesis using r by simp
qed

section \<open>The dimension of the generated points\<close>

lemma normalRandom_loop_returns:
  "accepted rnd (n + 2 * k) \<Longrightarrow> \<exists>v1 s n'. normalRandom_loop rnd n = Some (v1, s, n')"
proof (induction k arbitrary: n)
  case 0
  then show ?case
    by (subst normalRandom_loop.simps) (simp add: accepted_def Let_def)
next
  case (Suc k)
  then have "accepted rnd ((n + 2) + 2 * k)" by (simp add: add.assoc)
  from Suc.IH[OF this] show ?case
    by (subst normalRandom_loop.simps) (auto simp: Let_def)
qed

lemma normalRandom_returns:
  assumes "eventually_accepted rnd"
  shows "\<exists>x n'. normalRandom rnd n mean variance = Some (x, n')"
proof -
  from assms obtain k where "accepted rnd (n + 2 * k)" by (auto simp: eventually_accepted_def)
  from normalRandom_loop_returns[OF this] show ?thesis
    by (auto simp: normalRandom_def Let_def)
qed

lemma generateRandomInput_size: 
  "generateRandomInput rnd n size1 datasetType noise = generateRandomInput rnd n size2 datasetType noise"
  by (simp add: generateRandomInput_def)

lemma generateRandomInput_two:
  assumes g: "datasetType = Gaussian \<longrightarrow> unit_interval rnd \<and> eventually_accepted rnd"
  shows "\<exists>p n'. generateRandomInput rnd n size1 datasetType noise = Some (Inr (p, n')) \<and> length p = 2"
proof (cases datasetType)
  case Gaussian
  from g Gaussian have u: "unit_interval rnd" and ea: "eventually_accepted rnd" by simp_all
  from u have "0 \<le> rnd n * 4" "rnd n * 4 < 4" by (simp_all add: unit_interval_def)
  then have c: "0 \<le> \<lfloor>rnd n * 4\<rfloor>" "\<lfloor>rnd n * 4\<rfloor> < 4" by (simp_all add: floor_less_iff)
  obtain cx cy where cc: "centers ! nat \<lfloor>rnd n * 4\<rfloor> = (cx, cy)" by (cases "centers ! nat \<lfloor>rnd n * 4\<rfloor>")
  let ?var = "jadd (Num (2 / 10)) (jmul (case noise of None \<Rightarrow> Num (1 / 10) | Some x \<Rightarrow> x) (Num (3 / 10)))"
  from normalRandom_returns[OF ea] obtain x n1 where x: "normalRandom rnd (n + 1) (Num cx) ?var = Some (x, n1)"
    by blast
  from normalRandom_returns[OF ea] obtain y n2 where y: "normalRandom rnd n1 (Num cy) ?var = Some (y, n2)"
    by blast
  from Gaussian c cc x y show ?thesis
    by (simp add: generateRandomInput_def Let_def)
qed (simp_all add: generateRandomInput_def Let_def)


lemma generateDataset_loop_two:
  assumes g: "datasetType = Gaussian \<longrightarrow> unit_interval rnd \<and> eventually_accepted rnd"
  shows "\<exists>ps n'. generateDataset_loop rnd datasetType noise k n = Some (Inr (ps, n')) \<and>
           length ps = k \<and> (\<forall>p\<in>set ps. length p = 2)"
proof (induction k arbitrary: n)
  case 0
  then show ?case by simp
next
  case (Suc k)
  from generateRandomInput_two[OF g] obtain p n1 where
    p: "generateRandomInput rnd n (Num 2) datasetType (Some noise) = Some (Inr (p, n1))" "length p = 2"
    by blast
  from Suc.IH obtain ps n2 where
    ps: "generateDataset_loop rnd datasetType noise k n1 = Some (Inr (ps, n2))" "length ps = k"
      "\<forall>p\<in>set ps. length p = 2"
    by blast
  from p ps show ?case by simp
qed

text \<open>
  C10. For every pattern, noise and size, \<^verbatim>\<open>generateRandomInput\<close> returns a vector of two
  numbers, the same for every size, and \<^verbatim>\<open>generateDataset\<close> returns \<^verbatim>\<open>sampleSize\<close> vectors
  of two numbers. For the pattern \<^verbatim>\<open>gaussian\<close> this needs the numbers of \<^verbatim>\<open>Math.random\<close>
  to lie in \<open>[0, 1)\<close>, as they do, and the rejection loop of \<^verbatim>\<open>normalRandom\<close> to find a
  point in the unit disc from every start; the other patterns have no loop.
\<close>

theorem generated_points_two_dimensional:
  assumes "datasetType = Gaussian \<longrightarrow> unit_interval rnd \<and> eventually_accepted rnd"
  shows "(\<exists>p n'. generateRandomInput rnd n size1 datasetType noise = Some (Inr (p, n')) \<and>
            length p = 2 \<and>
            generateRandomInput rnd n size2 datasetType noise = Some (Inr (p, n'))) \<and>
         (\<exists>ps n'. generateDataset rnd n sampleSize datasetType noise = Some (Inr (ps, n')) \<and>
            length ps = sampleSize \<and> (\<forall>p\<in>set ps. length p = 2))"
proof -
  from generateRandomInput_two[OF assms] obtain p n' where
    "generateRandomInput rnd n size1 datasetType noise = Some (Inr (p, n'))" "length p = 2"
    by blast
  moreover from this(1) have "generateRandomInput rnd n size2 datasetType noise = Some (Inr (p, n'))"
    by (simp add: generateRandomInput_size[of rnd n size2 datasetType noise size1])
  moreover from generateDataset_loop_two[OF assms]
  have "\<exists>ps n'. generateDataset rnd n sampleSize datasetType noise = Some (Inr (ps, n')) \<and>
            length ps = sampleSize \<and> (\<forall>p\<in>set ps. length p = 2)"
    by (simp add: generateDataset_def Let_def)
  ultimately show ?thesis by blast
qed

theorem generated_points_two_dimensional_witness:
  "(\<exists>p n'. generateRandomInput (\<lambda>i. 3 / 4) 0 (Num 2) Gaussian None = Some (Inr (p, n')) \<and>
            length p = 2 \<and>
            generateRandomInput (\<lambda>i. 3 / 4) 0 (Num 7) Gaussian None = Some (Inr (p, n'))) \<and>
   (\<exists>ps n'. generateDataset (\<lambda>i. 3 / 4) 0 3 Gaussian None = Some (Inr (ps, n')) \<and>
            length ps = 3 \<and> (\<forall>p\<in>set ps. length p = 2))"
proof -
  have "unit_interval (\<lambda>i. 3 / 4) \<and> eventually_accepted (\<lambda>i. 3 / 4)"
    by (simp add: unit_interval_def eventually_accepted_def accepted_def)
  then have "Gaussian = Gaussian \<longrightarrow> unit_interval (\<lambda>i. 3 / 4) \<and> eventually_accepted (\<lambda>i. 3 / 4)"
    by simp
  from generated_points_two_dimensional [OF this] show ?thesis .
qed

end
